theory Spec2Isabelle
  imports Main "HOL-Library.Word"
begin

section \<open>The offload image tool \<^verbatim>\<open>mkoffload\<close> for ventus-gpgpu\<close>

text \<open>
  A shallow embedding of \<^verbatim>\<open>gcc/config/riscv/mkoffload.cc\<close>. C strings are HOL strings
  (the characters before the terminating NUL), a pointer into a string is an offset,
  \<^verbatim>\<open>unsigned\<close> and \<^verbatim>\<open>int\<close> are 32-bit words, \<^verbatim>\<open>size_t\<close> and the ELF-64 fields are
  words of their width.
\<close>

subsection \<open>\<^verbatim>\<open>parse_env_var\<close> (lines 55--84)\<close>

text \<open>
  \<^verbatim>\<open>strchr (str + p, c)\<close> for a character \<open>c\<close> other than NUL and an offset \<open>p\<close> inside the
  string: the offset of the first \<open>c\<close> at or after \<open>p\<close>, \<open>None\<close> (NULL) when there is none
  before the terminator.
\<close>

definition strchr :: "string \<Rightarrow> nat \<Rightarrow> char \<Rightarrow> nat option" where
  "strchr str p c =
     (if c \<in> set (drop p str)
      then Some (p + length (takeWhile (\<lambda>x. x \<noteq> c) (drop p str)))
      else None)"

lemma length_takeWhile_neq_less:
  "c \<in> set xs \<Longrightarrow> length (takeWhile (\<lambda>x. x \<noteq> c) xs) < length xs"
  by (induction xs) auto

lemma strchr_Some_bounds:
  "strchr str p c = Some k \<Longrightarrow> p \<le> k \<and> k < length str"
proof -
  assume a: "strchr str p c = Some k"
  then have m: "c \<in> set (drop p str)"
    by (auto simp: strchr_def split: if_splits)
  from a m have k: "k = p + length (takeWhile (\<lambda>x. x \<noteq> c) (drop p str))"
    by (simp add: strchr_def)
  from m have "length (takeWhile (\<lambda>x. x \<noteq> c) (drop p str)) < length (drop p str)"
    by (rule length_takeWhile_neq_less)
  with k show ?thesis by simp
qed

text \<open>
  Lines 60--64: \<^verbatim>\<open>curval = strchr (str, ':'); while (curval) { num++; curval = strchr
  (curval + 1, ':'); }\<close> with \<^verbatim>\<open>unsigned num\<close>, whose increment wraps at \<open>2 ^ 32\<close>.
\<close>

function count_loop :: "string \<Rightarrow> nat option \<Rightarrow> 32 word \<Rightarrow> 32 word" where
  "count_loop str None num = num"
| "count_loop str (Some curval) num = count_loop str (strchr str (curval + 1) CHR '':'') (num + 1)"
  by pat_completeness auto
termination
proof (relation "measure (\<lambda>(str, cur, num). case cur of None \<Rightarrow> 0 | Some k \<Rightarrow> Suc (length str - k))")
  show "wf (measure (\<lambda>(str, cur, num). case cur of None \<Rightarrow> 0 | Some k \<Rightarrow> Suc (length str - k)))"
    by simp
next
  fix str :: string and curval :: nat and num :: "32 word"
  show "((str, strchr str (curval + 1) CHR '':'', num + 1), (str, Some curval, num))
        \<in> measure (\<lambda>(str, cur, num). case cur of None \<Rightarrow> 0 | Some k \<Rightarrow> Suc (length str - k))"
  proof (cases "strchr str (curval + 1) CHR '':''")
    case None
    then show ?thesis by simp
  next
    case (Some k)
    from strchr_Some_bounds [OF Some] have "curval < k" and "k < length str"
      by simp_all
    then have "length str - k < length str - curval"
      by arith
    then show ?thesis
      using Some by simp
  qed
qed

text \<open>
  Lines 68--70 and 78--80: \<^verbatim>\<open>nextval = strchr (curval, ':'); if (nextval == NULL) nextval =
  strchr (curval, '\0');\<close>. With \<open>curval\<close> inside the string (the terminator included) the
  result is the end of the field that starts at \<open>curval\<close>. After the last field \<open>curval\<close>
  is one past the terminator, and the source reads memory that is not the string's: the
  pointer it gets is unspecified, \<open>None\<close> here.
\<close>

definition field_end :: "string \<Rightarrow> nat \<Rightarrow> nat option" where
  "field_end str curval =
     (if curval \<le> length str
      then Some (case strchr str curval CHR '':'' of Some k \<Rightarrow> k | None \<Rightarrow> length str)
      else None)"

text \<open>
  Lines 72--81, the loop \<^verbatim>\<open>for (i = 0; i < num; i++)\<close>: the first argument counts the
  iterations that remain, \<open>num - i\<close>. \<^verbatim>\<open>int l = nextval - curval\<close> keeps the low 32 bits of
  the difference, read as two's complement. The size of \<^verbatim>\<open>xmalloc (l + 1)\<close> is formed in
  \<^verbatim>\<open>int\<close> too and widened to \<^verbatim>\<open>size_t\<close> with its sign: when \<open>l + 1\<close> is negative, which
  includes the overflow at \<open>l = 2 ^ 31 - 1\<close>, the request is for close to \<open>2 ^ 64\<close> bytes
  and \<^verbatim>\<open>xmalloc\<close> ends the process. With \<open>l = - 1\<close> the allocation is of no bytes and
  \<^verbatim>\<open>memcpy (.., l)\<close> copies close to \<open>2 ^ 64\<close> bytes, which ends the process as well. The
  result is \<open>None\<close> in both cases, as it is when an iteration would use the unspecified
  pointer.
\<close>

fun values_loop :: "nat \<Rightarrow> string \<Rightarrow> nat \<Rightarrow> nat option \<Rightarrow> string list option" where
  "values_loop 0 str curval nextval = Some []"
| "values_loop (Suc n) str curval None = None"
| "values_loop (Suc n) str curval (Some nextval) =
     (let l = (word_of_nat (nextval - curval) :: 32 word) in
      if sint (l + 1) < 0 then None
      else if sint l < 0 then None
      else
        (case values_loop n str (nextval + 1) (field_end str (nextval + 1)) of
           None \<Rightarrow> None
         | Some values \<Rightarrow> Some (take (nat (sint l)) (drop curval str) # values)))"

text \<open>The function returns \<open>num\<close> and stores the array of copies in \<^verbatim>\<open>*pvalues\<close>.\<close>

definition parse_env_var :: "string \<Rightarrow> (32 word \<times> string list) option" where
  "parse_env_var str =
     (let num = count_loop str (strchr str 0 CHR '':'') 1 in
      case values_loop (unat num) str 0 (field_end str 0) of
        None \<Rightarrow> None
      | Some values \<Rightarrow> Some (num, values))"

text \<open>
  The colon-separated fields of a string, and the string that joins fields with colons:
  what the documentation of the search-path variables means by a list of directories.
\<close>

fun colon_fields :: "string \<Rightarrow> string list" where
  "colon_fields [] = [[]]"
| "colon_fields (c # cs) =
     (if c = CHR '':'' then [] # colon_fields cs
      else (case colon_fields cs of [] \<Rightarrow> [[c]] | f # fs \<Rightarrow> (c # f) # fs))"

fun colon_join :: "string list \<Rightarrow> string" where
  "colon_join [] = []"
| "colon_join [f] = f"
| "colon_join (f # g # fs) = f @ CHR '':'' # colon_join (g # fs)"

subsection \<open>The process state: files, environment, cleanup registry\<close>

type_synonym path = string
type_synonym byte = "8 word"

datatype file_type = Regular_File | Directory | Special_File

text \<open>
  What \<^verbatim>\<open>stat\<close>, \<^verbatim>\<open>access\<close>, \<^verbatim>\<open>open\<close> and \<^verbatim>\<open>fopen\<close> see of a file: its type, its bytes and
  what the current process may do with it.
\<close>

record inode =
  file_type :: file_type
  content :: "byte list"
  may_read :: bool
  may_write :: bool
  may_execute :: bool

type_synonym filesystem = "path \<Rightarrow> inode option"

text \<open>
  An element of the obstack \<^verbatim>\<open>files_to_cleanup\<close>: the address of a file name, or the
  value of a variable that was never assigned (\<^verbatim>\<open>gcn_o_name\<close>, line 376).
\<close>

datatype cleanup_entry = Registered path | Uninitialized

record world =
  files :: filesystem
  may_create :: "path \<Rightarrow> bool"
  environ :: "string \<Rightarrow> string option"
  files_to_cleanup :: "cleanup_entry list"
  executed :: "string list list"
  temp_files_made :: nat

text \<open>
  How a run ends: \<^verbatim>\<open>main\<close> returns a value, \<^verbatim>\<open>fatal_error\<close> reports a message and exits,
  \<^verbatim>\<open>gcc_unreachable\<close> or a failed \<^verbatim>\<open>gcc_assert\<close> aborts with an internal compiler error,
  the process crashes on a pointer it must not use, or it never ends.
\<close>

datatype outcome = Returns int | Fatal_Error string | Internal_Error | Crash | Hangs

subsection \<open>Declarations from outside the file\<close>

text \<open>
  The fields of \<^verbatim>\<open>Elf64_Ehdr\<close> and \<^verbatim>\<open>Elf64_Shdr\<close> that the file reads.
\<close>

record Elf64_Ehdr =
  e_machine :: "16 word"
  e_shoff :: "64 word"
  e_shnum :: "16 word"

record Elf64_Shdr =
  sh_type :: "32 word"
  sh_offset :: "64 word"
  sh_size :: "64 word"
  sh_entsize :: "64 word"

text \<open>
  Everything the file uses and does not define is a parameter of the model: the
  build-time macro \<^verbatim>\<open>GCC_INSTALL_NAME\<close>; the name \<^verbatim>\<open>make_temp_file\<close> picks (from the files
  that exist, the number of earlier calls and the suffix); the three functions of
  \<^verbatim>\<open>simple-object.h\<close>, as functions of the bytes of the input object (the copy also of
  what is at the output path, and it returns its error message and what it leaves
  there); the program that \<^verbatim>\<open>fork_execute\<close> runs, which sees the arguments, the
  environment and the files and returns its exit status and the files it leaves (a
  program that cannot be started counts as a nonzero status); whether an allocation of a
  given size fails; and the layout and constants of \<^verbatim>\<open>elf.h\<close>.
\<close>

record ext =
  GCC_INSTALL_NAME :: string
  make_temp_name :: "filesystem \<Rightarrow> nat \<Rightarrow> string \<Rightarrow> path"
  simple_object_start_read :: "byte list \<Rightarrow> bool"
  simple_object_find_section :: "byte list \<Rightarrow> string \<Rightarrow> bool"
  simple_object_copy_lto_debug_sections :: "byte list \<Rightarrow> inode option \<Rightarrow> string option \<times> inode option"
  run_program :: "string list \<Rightarrow> (string \<Rightarrow> string option) \<Rightarrow> filesystem \<Rightarrow> int \<times> filesystem"
  xmalloc_fails :: "nat \<Rightarrow> bool"
  sizeof_Elf64_Ehdr :: nat
  read_Elf64_Ehdr :: "byte list \<Rightarrow> Elf64_Ehdr"
  sizeof_Elf64_Shdr :: nat
  read_Elf64_Shdr :: "byte list \<Rightarrow> Elf64_Shdr"
  EM_X86_64 :: "16 word"
  SHT_RELA :: "32 word"

subsection \<open>\<^verbatim>\<open>tool_cleanup\<close> and \<^verbatim>\<open>mkoffload_cleanup\<close> (lines 40--42)\<close>

text \<open>The body of \<^verbatim>\<open>tool_cleanup\<close> is empty.\<close>

definition tool_cleanup :: "bool \<Rightarrow> world \<Rightarrow> world" where
  "tool_cleanup from_signal w = w"

definition mkoffload_cleanup :: "world \<Rightarrow> world" where
  "mkoffload_cleanup w = tool_cleanup False w"

subsection \<open>\<^verbatim>\<open>access_check\<close> (lines 44--53)\<close>

datatype access_mode = F_OK | R_OK | W_OK | X_OK

definition stat :: "filesystem \<Rightarrow> path \<Rightarrow> inode option" where
  "stat fs name = fs name"

definition S_ISDIR :: "inode \<Rightarrow> bool" where
  "S_ISDIR st = (file_type st = Directory)"

definition access :: "filesystem \<Rightarrow> path \<Rightarrow> access_mode \<Rightarrow> int" where
  "access fs name mode =
     (case fs name of
        None \<Rightarrow> - 1
      | Some n \<Rightarrow>
          if (case mode of F_OK \<Rightarrow> True | R_OK \<Rightarrow> may_read n
              | W_OK \<Rightarrow> may_write n | X_OK \<Rightarrow> may_execute n)
          then 0 else - 1)"

definition access_check :: "filesystem \<Rightarrow> path \<Rightarrow> access_mode \<Rightarrow> int" where
  "access_check fs name mode =
     (if mode = X_OK then
        (case stat fs name of
           None \<Rightarrow> - 1
         | Some st \<Rightarrow> if S_ISDIR st then - 1 else access fs name mode)
      else access fs name mode)"

subsection \<open>Environment and temporary files\<close>

definition getenv :: "world \<Rightarrow> string \<Rightarrow> string option" where
  "getenv w name = environ w name"

definition unsetenv :: "string \<Rightarrow> world \<Rightarrow> world" where
  "unsetenv name w = w\<lparr>environ := (environ w)(name := None)\<rparr>"

text \<open>\<^verbatim>\<open>xputenv\<close> (lines 99--103) with the string \<^verbatim>\<open>name=value\<close>; the echo on stderr is left out.\<close>

definition xputenv :: "string \<Rightarrow> string \<Rightarrow> world \<Rightarrow> world" where
  "xputenv name val w = w\<lparr>environ := (environ w)(name \<mapsto> val)\<rparr>"

definition obstack_ptr_grow :: "cleanup_entry \<Rightarrow> world \<Rightarrow> world" where
  "obstack_ptr_grow e w = w\<lparr>files_to_cleanup := files_to_cleanup w @ [e]\<rparr>"

definition new_file :: inode where
  "new_file = \<lparr>file_type = Regular_File, content = [], may_read = True, may_write = True,
                may_execute = False\<rparr>"

text \<open>\<^verbatim>\<open>make_temp_file\<close> creates an empty file under a name of its choice and returns the name.\<close>

definition make_temp_file :: "ext \<Rightarrow> string \<Rightarrow> world \<Rightarrow> path \<times> world" where
  "make_temp_file X suffix w =
     (let name = make_temp_name X (files w) (temp_files_made w) suffix
      in (name, w\<lparr>files := (files w)(name \<mapsto> new_file),
                   temp_files_made := Suc (temp_files_made w)\<rparr>))"

text \<open>
  \<^verbatim>\<open>fopen (name, "w")\<close>: an existing file is truncated when it may be written and is not
  a directory, a missing one is created where the directory allows it.
\<close>

definition fopen_w :: "path \<Rightarrow> world \<Rightarrow> world option" where
  "fopen_w name w =
     (case files w name of
        Some n \<Rightarrow>
          if file_type n = Directory \<or> \<not> may_write n then None
          else Some (w\<lparr>files := (files w)(name \<mapsto> n\<lparr>content := []\<rparr>)\<rparr>)
      | None \<Rightarrow>
          if name \<noteq> [] \<and> may_create w name
          then Some (w\<lparr>files := (files w)(name \<mapsto> new_file)\<rparr>)
          else None)"

text \<open>
  \<^verbatim>\<open>concat (first, ..., NULL)\<close> of libiberty stops at the first NULL argument: with a NULL
  \<^verbatim>\<open>dumppfx\<close> in first place the result is the empty string.
\<close>

definition concat_from :: "string option \<Rightarrow> string list \<Rightarrow> string" where
  "concat_from first rest = (case first of None \<Rightarrow> [] | Some s \<Rightarrow> s @ concat rest)"

text \<open>\<^verbatim>\<open>sprintf (buf, "%d", n)\<close> for a count \<open>n\<close>.\<close>

fun decimal :: "nat \<Rightarrow> string" where
  "decimal n =
     (if n < 10 then [char_of (48 + n)]
      else decimal (n div 10) @ [char_of (48 + n mod 10)])"

text \<open>\<^verbatim>\<open>dirname\<close> and \<^verbatim>\<open>basename\<close> of \<^verbatim>\<open>libgen.h\<close>.\<close>

definition strip_slashes :: "string \<Rightarrow> string" where
  "strip_slashes p = rev (dropWhile (\<lambda>c. c = CHR ''/'') (rev p))"

definition basename :: "string \<Rightarrow> string" where
  "basename p =
     (let q = strip_slashes p in
      if p = [] then ''.''
      else if q = [] then ''/''
      else rev (takeWhile (\<lambda>c. c \<noteq> CHR ''/'') (rev q)))"

definition dirname :: "string \<Rightarrow> string" where
  "dirname p =
     (let q = strip_slashes p in
      if CHR ''/'' \<notin> set q then (if q = [] \<and> p \<noteq> [] then ''/'' else ''.'')
      else
        (let d = strip_slashes (rev (dropWhile (\<lambda>c. c \<noteq> CHR ''/'') (rev q)))
         in if d = [] then ''/'' else d))"

subsection \<open>Finding the offload compiler (\<^verbatim>\<open>main\<close>, lines 225--270)\<close>

text \<open>
  Lines 256--264: the candidates \<^verbatim>\<open>paths[i]/GCC_INSTALL_NAME\<close> are probed in order; the
  loop leaves at the first one \<^verbatim>\<open>access_check\<close> accepts. The result lists the paths that
  were probed and gives the accepted one.
\<close>

fun search_paths :: "ext \<Rightarrow> filesystem \<Rightarrow> string list \<Rightarrow> path list \<times> path option" where
  "search_paths X fs [] = ([], None)"
| "search_paths X fs (p # ps) =
     (let driver = p @ ''/'' @ GCC_INSTALL_NAME X in
      if access_check fs driver X_OK = 0 then ([driver], Some driver)
      else (case search_paths X fs ps of (probed, r) \<Rightarrow> (driver # probed, r)))"

text \<open>
  Lines 225--270. \<^verbatim>\<open>COMPILER_PATH\<close> is read only when the probe beside \<^verbatim>\<open>COLLECT_GCC\<close>
  fails; \<^verbatim>\<open>parse_env_var\<close> receives what \<^verbatim>\<open>getenv\<close> returns, and a NULL there is handed to
  \<^verbatim>\<open>strchr\<close>. A call of \<^verbatim>\<open>parse_env_var\<close> that ends the process ends the locator the same
  way.
\<close>

definition find_driver :: "ext \<Rightarrow> world \<Rightarrow> outcome + path" where
  "find_driver X w =
     (case getenv w ''COLLECT_GCC'' of
        None \<Rightarrow> Inl (Fatal_Error ''COLLECT_GCC must be set.'')
      | Some collect_gcc \<Rightarrow>
          let gcc_exec = basename collect_gcc;
              gcc_path = (if gcc_exec = collect_gcc then None else Some (dirname collect_gcc));
              driver = (case gcc_path of None \<Rightarrow> GCC_INSTALL_NAME X
                        | Some d \<Rightarrow> d @ ''/'' @ GCC_INSTALL_NAME X)
          in if gcc_path = None then Inr driver
             else if access_check (files w) driver X_OK = 0 then Inr driver
             else
               (case getenv w ''COMPILER_PATH'' of
                  None \<Rightarrow> Inl Crash
                | Some str \<Rightarrow>
                    (case parse_env_var str of
                       None \<Rightarrow> Inl Crash
                     | Some (n_paths, paths) \<Rightarrow>
                         (case snd (search_paths X (files w) paths) of
                            None \<Rightarrow> Inl (Fatal_Error (''offload compiler '' @ GCC_INSTALL_NAME X
                                                       @ '' not found''))
                          | Some found \<Rightarrow> Inr found))))"

subsection \<open>Scanning the argument vector (\<^verbatim>\<open>main\<close>, lines 274--319)\<close>

datatype offload_abi_t = OFFLOAD_ABI_UNSET | OFFLOAD_ABI_LP64 | OFFLOAD_ABI_ILP32

text \<open>
  The variables the scan sets: the locals of \<^verbatim>\<open>main\<close>, the file's \<^verbatim>\<open>offload_abi\<close>, and
  \<^verbatim>\<open>save_temps\<close>, \<^verbatim>\<open>verbose\<close> and \<^verbatim>\<open>dumppfx\<close> of \<^verbatim>\<open>collect-utils.h\<close>.
\<close>

record flags =
  offload_abi :: offload_abi_t
  fopenmp :: bool
  fopenacc :: bool
  fPIC :: bool
  fpic :: bool
  save_temps :: bool
  verbose :: bool
  dumppfx :: "string option"

definition initial_flags :: flags where
  "initial_flags = \<lparr>offload_abi = OFFLOAD_ABI_UNSET, fopenmp = False, fopenacc = False,
                     fPIC = False, fpic = False, save_temps = False, verbose = False,
                     dumppfx = None\<rparr>"

definition startswith :: "string \<Rightarrow> string \<Rightarrow> bool" where
  "startswith str prefix = (take (length prefix) str = prefix)"

text \<open>
  Lines 279--304, over \<^verbatim>\<open>argv[1]\<close>, ..., \<^verbatim>\<open>argv[argc - 1]\<close> (after \<^verbatim>\<open>expandargv\<close>); \<open>Inl\<close> is
  the message of \<^verbatim>\<open>fatal_error\<close>. \<^verbatim>\<open>-dumpbase\<close> takes the next argument when there is one,
  and the scan goes on after it.
\<close>

fun scan_args :: "string list \<Rightarrow> flags \<Rightarrow> string + flags" where
  "scan_args [] f = Inr f"
| "scan_args (a # rest) f =
     (if startswith a ''-foffload-abi='' then
        (if drop (length ''-foffload-abi='') a = ''lp64''
         then scan_args rest (f\<lparr>offload_abi := OFFLOAD_ABI_LP64\<rparr>)
         else if drop (length ''-foffload-abi='') a = ''ilp32''
         then scan_args rest (f\<lparr>offload_abi := OFFLOAD_ABI_ILP32\<rparr>)
         else Inl ''unrecognizable argument of option -foffload-abi='')
      else if a = ''-fopenmp'' then scan_args rest (f\<lparr>fopenmp := True\<rparr>)
      else if a = ''-fopenacc'' then scan_args rest (f\<lparr>fopenacc := True\<rparr>)
      else if a = ''-fPIC'' then scan_args rest (f\<lparr>fPIC := True\<rparr>)
      else if a = ''-fpic'' then scan_args rest (f\<lparr>fpic := True\<rparr>)
      else if a = ''-save-temps'' then scan_args rest (f\<lparr>save_temps := True\<rparr>)
      else if a = ''-v'' then scan_args rest (f\<lparr>verbose := True\<rparr>)
      else if a = ''-dumpbase'' \<and> rest \<noteq> []
      then scan_args (tl rest) (f\<lparr>dumppfx := Some (hd rest)\<rparr>)
      else scan_args rest f)"

text \<open>Lines 309--319; \<open>None\<close> is \<^verbatim>\<open>gcc_unreachable\<close>.\<close>

definition abi_option :: "offload_abi_t \<Rightarrow> string option" where
  "abi_option a =
     (case a of
        OFFLOAD_ABI_LP64 \<Rightarrow> Some ''-mabi=lp64d''
      | OFFLOAD_ABI_ILP32 \<Rightarrow> Some ''-mabi=ipl32d''
      | OFFLOAD_ABI_UNSET \<Rightarrow> None)"

text \<open>
  Lines 336--341: \<^verbatim>\<open>-o\<close> takes the next argument as \<^verbatim>\<open>outname\<close> when there is one; every
  other argument goes to the compiler. The result is the arguments passed on and the
  last \<^verbatim>\<open>outname\<close>.
\<close>

fun output_option :: "string list \<Rightarrow> string option \<Rightarrow> string list \<times> string option" where
  "output_option [] outname = ([], outname)"
| "output_option (a # rest) outname =
     (if a = ''-o'' \<and> rest \<noteq> [] then output_option (tl rest) (Some (hd rest))
      else (case output_option rest outname of (passed, out) \<Rightarrow> (a # passed, out)))"

subsection \<open>\<^verbatim>\<open>copy_early_debug_info\<close> (lines 105--208)\<close>

text \<open>
  Modelled from the spec: \<^verbatim>\<open>unlink_if_ordinary\<close> of libiberty, which is not among the
  sources. "On copy failure, remove any partially written output": the file at the path
  is removed when it is an ordinary file; a directory or a device stays.
\<close>

definition unlink_if_ordinary :: "path \<Rightarrow> filesystem \<Rightarrow> filesystem" where
  "unlink_if_ordinary name fs =
     (case fs name of
        None \<Rightarrow> fs
      | Some n \<Rightarrow> if file_type n = Regular_File then fs(name := None) else fs)"

text \<open>
  \<^verbatim>\<open>fseek (outfd, off, SEEK_SET)\<close> takes a \<^verbatim>\<open>long\<close>: an offset with the top bit set is
  negative and the call fails. \<^verbatim>\<open>fread (ptr, sz, nmemb, outfd)\<close> at position \<open>pos\<close>
  returns the number of complete items it could read.
\<close>

definition fseek_set :: "64 word \<Rightarrow> nat option" where
  "fseek_set off = (if sint off < 0 then None else Some (unat off))"

definition fread :: "byte list \<Rightarrow> nat \<Rightarrow> nat \<Rightarrow> nat \<Rightarrow> nat" where
  "fread data pos sz nmemb =
     (if sz = 0 then 0 else min nmemb ((length data - pos) div sz))"

text \<open>
  Lines 174--204: \<^verbatim>\<open>for (size_t offset = 0; offset < sh_size; offset += sh_entsize)\<close>. The
  body computes the address of the record and does nothing with it: the \<^verbatim>\<open>switch\<close> that
  would rewrite \<^verbatim>\<open>r_info\<close> is inside a comment. With a zero \<^verbatim>\<open>sh_entsize\<close> the loop does
  not end, which is the value \<open>None\<close>.
\<close>

partial_function (option) reloc_loop :: "64 word \<Rightarrow> 64 word \<Rightarrow> 64 word \<Rightarrow> unit option" where
  "reloc_loop offset sz entsize =
     (if offset < sz then reloc_loop (offset + entsize) sz entsize else Some ())"

declare reloc_loop.simps [code]

text \<open>Lines 163--205, over the section headers read at line 156.\<close>

fun walk_sections :: "ext \<Rightarrow> byte list \<Rightarrow> Elf64_Shdr list \<Rightarrow> outcome + bool" where
  "walk_sections X data [] = Inr True"
| "walk_sections X data (s # sections) =
     (if sh_type s \<noteq> SHT_RELA X then walk_sections X data sections
      else if xmalloc_fails X (unat (sh_size s)) then Inl (Fatal_Error ''out of memory'')
      else
        (case fseek_set (sh_offset s) of
           None \<Rightarrow> walk_sections X data sections
         | Some pos \<Rightarrow>
             if fread data pos (unat (sh_size s)) 1 \<noteq> 1 then walk_sections X data sections
             else
               (case reloc_loop 0 (sh_size s) (sh_entsize s) of
                  None \<Rightarrow> Inl Hangs
                | Some u \<Rightarrow> walk_sections X data sections)))"

text \<open>
  Lines 136--207, on what the copy left at the output path: \<^verbatim>\<open>fopen (outfile, "r+b")\<close>,
  the ELF header, the assertion on \<^verbatim>\<open>e_machine\<close>, the section headers, the walk. Nothing
  here writes to the file.
\<close>

definition adjust_output :: "ext \<Rightarrow> inode option \<Rightarrow> outcome + bool" where
  "adjust_output X out =
     (case out of
        None \<Rightarrow> Inr False
      | Some n \<Rightarrow>
          if file_type n = Directory \<or> \<not> may_read n \<or> \<not> may_write n then Inr False
          else if fread (content n) 0 (sizeof_Elf64_Ehdr X) 1 \<noteq> 1 then Inr True
          else
            (let ehdr = read_Elf64_Ehdr X (take (sizeof_Elf64_Ehdr X) (content n));
                 shnum = unat (e_shnum ehdr);
                 shsize = sizeof_Elf64_Shdr X
             in if e_machine ehdr \<noteq> EM_X86_64 X then Inl Internal_Error
                else if xmalloc_fails X (shsize * shnum) then Inl (Fatal_Error ''out of memory'')
                else
                  (case fseek_set (e_shoff ehdr) of
                     None \<Rightarrow> Inr True
                   | Some pos \<Rightarrow>
                       if fread (content n) pos shsize shnum \<noteq> shnum then Inr True
                       else walk_sections X (content n)
                              (map (\<lambda>i. read_Elf64_Shdr X
                                           (take shsize (drop (pos + i * shsize) (content n))))
                                 [0..<shnum]))))"

text \<open>
  The whole function: the result (or the way the process ends inside it) and the files it
  leaves. \<^verbatim>\<open>open\<close> fails on a missing or unreadable input, \<^verbatim>\<open>simple_object_start_read\<close>
  cannot read a directory.
\<close>

definition copy_early_debug_info ::
  "ext \<Rightarrow> path \<Rightarrow> path \<Rightarrow> filesystem \<Rightarrow> (outcome + bool) \<times> filesystem" where
  "copy_early_debug_info X infile outfile fs =
     (case fs infile of
        None \<Rightarrow> (Inr False, fs)
      | Some inobj \<Rightarrow>
          if \<not> may_read inobj then (Inr False, fs)
          else if file_type inobj = Directory \<or> \<not> simple_object_start_read X (content inobj)
          then (Inr False, fs)
          else if \<not> simple_object_find_section X (content inobj) ''.gnu.debuglto_.debug_info''
          then (Inr False, fs)
          else
            (case simple_object_copy_lto_debug_sections X (content inobj) (fs outfile) of
               (Some errmsg, out) \<Rightarrow> (Inr False, unlink_if_ordinary outfile (fs(outfile := out)))
             | (None, out) \<Rightarrow> (adjust_output X out, fs(outfile := out))))"

subsection \<open>The compiler pass (\<^verbatim>\<open>main\<close>, lines 321--463)\<close>

text \<open>
  Line 399: \<^verbatim>\<open>strcmp (argv[ix] + strlen (argv[ix]) - 2, ".o") == 0\<close>. For an argument of
  fewer than two characters the comparison starts before the string; what precedes an
  argument in memory ends with the terminator of another string, so it does not match.
\<close>

definition ends_in_dot_o :: "string \<Rightarrow> bool" where
  "ends_in_dot_o a = (2 \<le> length a \<and> drop (length a - 2) a = ''.o'')"

text \<open>
  Lines 395--417. For every argument that ends in \<^verbatim>\<open>.o\<close> (the argument of \<^verbatim>\<open>-o\<close> apart) a
  name is chosen and registered (line 408) before \<^verbatim>\<open>copy_early_debug_info\<close> runs; when it
  returns true the name joins \<^verbatim>\<open>ld_argv\<close> and is registered again (line 412), otherwise
  the string is freed and the registry keeps its address.
\<close>

fun debug_objects ::
  "ext \<Rightarrow> bool \<Rightarrow> string option \<Rightarrow> string list \<Rightarrow> string list \<Rightarrow> nat \<Rightarrow> world
     \<Rightarrow> (outcome + string list) \<times> world" where
  "debug_objects X save pfx [] ld_argv dbgcount w = (Inr ld_argv, w)"
| "debug_objects X save pfx (a # rest) ld_argv dbgcount w =
     (if a = ''-o'' \<and> rest \<noteq> [] then debug_objects X save pfx (tl rest) ld_argv dbgcount w
      else if \<not> ends_in_dot_o a then debug_objects X save pfx rest ld_argv dbgcount w
      else
        (case (if save
               then (concat_from pfx [''.mkoffload.dbg'', decimal dbgcount, ''.o''], w)
               else make_temp_file X ''.mkoffload.dbg.o'' w) of
           (dbgobj, w1) \<Rightarrow>
             (let w2 = obstack_ptr_grow (Registered dbgobj) w1;
                  dbgcount' = (if save then dbgcount + 1 else dbgcount)
              in case copy_early_debug_info X a dbgobj (files w2) of
                   (Inl out, fs) \<Rightarrow> (Inl out, w2\<lparr>files := fs\<rparr>)
                 | (Inr ok, fs) \<Rightarrow>
                     if ok
                     then debug_objects X save pfx rest (ld_argv @ [dbgobj]) dbgcount'
                            (obstack_ptr_grow (Registered dbgobj) (w2\<lparr>files := fs\<rparr>))
                     else debug_objects X save pfx rest ld_argv dbgcount'
                            (w2\<lparr>files := fs\<rparr>))))"

text \<open>
  Modelled from the spec: \<^verbatim>\<open>fork_execute\<close> of \<^verbatim>\<open>collect-utils.cc\<close>, which is not among the
  sources. It "launches the compile subprocess with the compile-stage ArgumentSet, waits
  for completion; nonzero exit" is fatal. The run is recorded in \<open>executed\<close>.
\<close>

definition fork_execute :: "ext \<Rightarrow> string list \<Rightarrow> world \<Rightarrow> outcome option \<times> world" where
  "fork_execute X argv w =
     (case run_program X argv (environ w) (files w) of
        (status, fs) \<Rightarrow>
          (if status = 0 then None
           else Some (Fatal_Error (''nonzero exit status of '' @ hd argv)),
           w\<lparr>files := fs, executed := executed w @ [argv]\<rparr>))"

text \<open>
  Lines 441--461: the three variables are read and unset, the name of the requirements
  file is chosen and registered, \<^verbatim>\<open>GCC_OFFLOAD_OMP_REQUIRES_FILE\<close> is set, the compiler runs,
  the variable is unset. The values read at lines 442--444 are not used again.
\<close>

definition compiler_pass ::
  "ext \<Rightarrow> bool \<Rightarrow> string option \<Rightarrow> string list \<Rightarrow> world \<Rightarrow> outcome \<times> world" where
  "compiler_pass X save pfx cc_argv w =
     (let execpath = getenv w ''GCC_EXEC_PREFIX'';
          cpath = getenv w ''COMPILER_PATH'';
          lpath = getenv w ''LIBRARY_PATH'';
          w1 = unsetenv ''LIBRARY_PATH''
                 (unsetenv ''COMPILER_PATH'' (unsetenv ''GCC_EXEC_PREFIX'' w))
      in case (if save then (concat_from pfx [''.mkoffload.omp_requires''], w1)
               else make_temp_file X ''.mkoffload.omp_requires'' w1) of
           (omp_requires_file, w2) \<Rightarrow>
             (let w3 = obstack_ptr_grow (Registered omp_requires_file) w2;
                  w4 = xputenv ''GCC_OFFLOAD_OMP_REQUIRES_FILE'' omp_requires_file w3
              in case fork_execute X cc_argv w4 of
                   (Some out, w5) \<Rightarrow> (out, w5)
                 | (None, w5) \<Rightarrow>
                     (Returns (- 1), unsetenv ''GCC_OFFLOAD_OMP_REQUIRES_FILE'' w5)))"

text \<open>
  Lines 359--376: the names of the two assembler files, registered together with the
  unassigned \<^verbatim>\<open>gcn_o_name\<close>.
\<close>

definition assembler_names :: "ext \<Rightarrow> bool \<Rightarrow> string \<Rightarrow> world \<Rightarrow> path \<times> world" where
  "assembler_names X save mko_dumpbase w =
     (case (if save then ((mko_dumpbase @ ''.1.s'', mko_dumpbase @ ''.2.s''), w)
            else (case make_temp_file X ''.mkoffload.1.s'' w of
                    (s1, wa) \<Rightarrow>
                      (case make_temp_file X ''.mkoffload.2.s'' wa of
                         (s2, wb) \<Rightarrow> ((s1, s2), wb)))) of
        ((gcn_s1_name, gcn_s2_name), w1) \<Rightarrow>
          (gcn_s1_name,
           obstack_ptr_grow Uninitialized
             (obstack_ptr_grow (Registered gcn_s2_name)
                (obstack_ptr_grow (Registered gcn_s1_name) w1))))"

text \<open>
  Lines 359--461, the branch for \<^verbatim>\<open>OFFLOAD_ABI_LP64\<close>. \<^verbatim>\<open>ld_argv\<close> is completed at lines
  419--439 and not used afterwards. The only \<^verbatim>\<open>fork_execute\<close> is the compiler pass of
  line 458.
\<close>

definition main_lp64 ::
  "ext \<Rightarrow> path \<Rightarrow> flags \<Rightarrow> string option \<Rightarrow> string list \<Rightarrow> string list \<Rightarrow> world
     \<Rightarrow> outcome \<times> world" where
  "main_lp64 X driver f pfx cc_args args w =
     (let mko_dumpbase = concat_from pfx [''.mkoffload''] in
      case assembler_names X (save_temps f) mko_dumpbase w of
        (gcn_s1_name, w1) \<Rightarrow>
          (let cc_argv = cc_args @ [''-dumpdir'', [], ''-dumpbase'', mko_dumpbase,
                                    ''-dumpbase-ext'', [], ''-o'', gcn_s1_name]
           in case debug_objects X (save_temps f) pfx args [driver] 0 w1 of
                (Inl out, w2) \<Rightarrow> (out, w2)
              | (Inr ld_argv, w2) \<Rightarrow> compiler_pass X (save_temps f) pfx cc_argv w2))"

text \<open>
  Lines 321--357 and the end of \<^verbatim>\<open>main\<close>: the arguments of the compiler, the name of the C
  file (registered, then opened for writing), the branch above for \<^verbatim>\<open>OFFLOAD_ABI_LP64\<close>,
  and \<^verbatim>\<open>return -1\<close>.
\<close>

definition main_compile ::
  "ext \<Rightarrow> path \<Rightarrow> string \<Rightarrow> flags \<Rightarrow> string list \<Rightarrow> world \<Rightarrow> outcome \<times> world" where
  "main_compile X driver abi f args w =
     (case output_option args None of
        (passed, outname) \<Rightarrow>
          (let cc_args = [driver, ''-S'']
                 @ (if save_temps f then [''-save-temps''] else [])
                 @ (if verbose f then [''-v''] else [])
                 @ [abi, ''-xlto'']
                 @ (if fopenmp f then [''-mgomp''] else [])
                 @ passed;
               dumppfx' = (case dumppfx f of None \<Rightarrow> outname | Some d \<Rightarrow> Some d);
               gcn_dumpbase = concat_from dumppfx' [''.c'']
           in case (if save_temps f then (gcn_dumpbase, w) else make_temp_file X ''.c'' w) of
                (gcn_cfile_name, w1) \<Rightarrow>
                  (let w2 = obstack_ptr_grow (Registered gcn_cfile_name) w1
                   in case fopen_w gcn_cfile_name w2 of
                        None \<Rightarrow>
                          (Fatal_Error (''cannot open '' @ [CHR 0x27] @ gcn_cfile_name @ [CHR 0x27]),
                           w2)
                      | Some w3 \<Rightarrow>
                          if offload_abi f = OFFLOAD_ABI_LP64
                          then main_lp64 X driver f dumppfx' cc_args args w3
                          else (Returns (- 1), w3))))"

text \<open>
  \<^verbatim>\<open>main\<close> (lines 210--464) on the arguments as \<^verbatim>\<open>expandargv\<close> leaves them. The greeting on
  stdout and the failure of \<^verbatim>\<open>atexit\<close> are left out.
\<close>

definition main :: "ext \<Rightarrow> string list \<Rightarrow> world \<Rightarrow> outcome \<times> world" where
  "main X argv w =
     (case find_driver X w of
        Inl out \<Rightarrow> (out, w)
      | Inr driver \<Rightarrow>
          (case scan_args (tl argv) initial_flags of
             Inl msg \<Rightarrow> (Fatal_Error msg, w)
           | Inr f \<Rightarrow>
               if \<not> (fopenacc f \<noteq> fopenmp f)
               then (Fatal_Error ''either -fopenacc or -fopenmp must be set'', w)
               else
                 (case abi_option (offload_abi f) of
                    None \<Rightarrow> (Internal_Error, w)
                  | Some abi \<Rightarrow> main_compile X driver abi f (tl argv) w)))"

text \<open>
  The process: \<^verbatim>\<open>main\<close>, then the handler registered with \<^verbatim>\<open>atexit\<close> (line 222) whenever
  the process ends through \<^verbatim>\<open>exit\<close>.
\<close>

definition mkoffload :: "ext \<Rightarrow> string list \<Rightarrow> world \<Rightarrow> outcome \<times> world" where
  "mkoffload X argv w =
     (case main X argv w of
        (out, w') \<Rightarrow> (out, if out = Crash \<or> out = Hangs then w' else mkoffload_cleanup w'))"

subsection \<open>A sample platform and a sample run\<close>

text \<open>
  The layout of \<^verbatim>\<open>elf.h\<close> on the x86-64 host the file asserts (ELF-64, little-endian): the
  header and a section header are 64 bytes each, \<^verbatim>\<open>e_machine\<close> is at offset 18, \<^verbatim>\<open>e_shoff\<close>
  at 40, \<^verbatim>\<open>e_shnum\<close> at 60; \<^verbatim>\<open>sh_type\<close> at 4, \<^verbatim>\<open>sh_offset\<close> at 24, \<^verbatim>\<open>sh_size\<close> at 32,
  \<^verbatim>\<open>sh_entsize\<close> at 56.
\<close>

definition le_word :: "byte list \<Rightarrow> 'a::len word" where
  "le_word bs = foldr (\<lambda>b acc. ucast b + 256 * acc) bs 0"

definition elf64_ehdr :: "byte list \<Rightarrow> Elf64_Ehdr" where
  "elf64_ehdr bs =
     \<lparr>e_machine = le_word (take 2 (drop 18 bs)),
      e_shoff = le_word (take 8 (drop 40 bs)),
      e_shnum = le_word (take 2 (drop 60 bs))\<rparr>"

definition elf64_shdr :: "byte list \<Rightarrow> Elf64_Shdr" where
  "elf64_shdr bs =
     \<lparr>sh_type = le_word (take 4 (drop 4 bs)),
      sh_offset = le_word (take 8 (drop 24 bs)),
      sh_size = le_word (take 8 (drop 32 bs)),
      sh_entsize = le_word (take 8 (drop 56 bs))\<rparr>"

definition elf_magic :: "byte list" where
  "elf_magic = [0x7f, 0x45, 0x4c, 0x46]"

definition le_bytes :: "nat \<Rightarrow> 64 word \<Rightarrow> byte list" where
  "le_bytes n v = map (\<lambda>i. ucast (drop_bit (8 * i) v)) [0..<n]"

text \<open>
  An x86-64 object as the copy may leave it: the header (64 bytes; \<^verbatim>\<open>e_machine\<close> 62,
  \<^verbatim>\<open>e_shoff\<close> 88, \<^verbatim>\<open>e_shnum\<close> 1), one \<^verbatim>\<open>Elf64_Rela\<close> record at offset 64 whose \<^verbatim>\<open>r_info\<close>
  holds symbol 1 and the type code 10 (\<^verbatim>\<open>R_X86_64_32\<close>), and at offset 88 the header of the
  section that holds it (\<^verbatim>\<open>SHT_RELA\<close>, offset 64, size 24, entry size 24).
\<close>

definition rela_elf :: "byte list" where
  "rela_elf =
     replicate 18 0 @ le_bytes 2 62 @ replicate 20 0 @ le_bytes 8 88 @ replicate 12 0
       @ le_bytes 2 1 @ replicate 2 0
     @ le_bytes 8 0 @ le_bytes 8 0x10000000A @ le_bytes 8 0
     @ replicate 4 0 @ le_bytes 4 4 @ replicate 16 0 @ le_bytes 8 64 @ le_bytes 8 24
       @ replicate 16 0 @ le_bytes 8 24"

text \<open>The same header alone: its section header table lies past the end of the file.\<close>

definition header_only_elf :: "byte list" where
  "header_only_elf = take 64 rela_elf"

text \<open>
  A stand-in for the object-file library, on a toy container: the magic number, one byte
  that says whether the debug section is there, one byte that says whether the copy will
  succeed, then the bytes the copy writes (it stops after three of them when it fails).
  Temporary files are numbered, the compiler always succeeds, memory never runs out.
\<close>

definition sample_ext :: ext where
  "sample_ext =
     \<lparr>GCC_INSTALL_NAME = ''riscv64-unknown-elf-gcc'',
      make_temp_name = (\<lambda>fs n suffix. ''/tmp/cc'' @ decimal n @ suffix),
      simple_object_start_read = (\<lambda>bs. take 4 bs = elf_magic),
      simple_object_find_section = (\<lambda>bs name. take 1 (drop 4 bs) = [1]),
      simple_object_copy_lto_debug_sections =
        (\<lambda>bs old. if take 1 (drop 5 bs) = [1]
                   then (None, Some (new_file\<lparr>content := drop 6 bs\<rparr>))
                   else (Some ''write error'', Some (new_file\<lparr>content := take 3 (drop 6 bs)\<rparr>))),
      run_program = (\<lambda>argv env fs. (0, fs)),
      xmalloc_fails = (\<lambda>n. False),
      sizeof_Elf64_Ehdr = 64,
      read_Elf64_Ehdr = elf64_ehdr,
      sizeof_Elf64_Shdr = 64,
      read_Elf64_Shdr = elf64_shdr,
      EM_X86_64 = 62,
      SHT_RELA = 4\<rparr>"

definition program_file :: inode where
  "program_file = \<lparr>file_type = Regular_File, content = [], may_read = True, may_write = False,
                    may_execute = True\<rparr>"

definition object_file :: "byte list \<Rightarrow> inode" where
  "object_file bs = \<lparr>file_type = Regular_File, content = bs, may_read = True, may_write = True,
                      may_execute = False\<rparr>"

text \<open>
  \<^verbatim>\<open>a.o\<close> is a container without the debug section, \<^verbatim>\<open>b.o\<close> has it and can be copied
  (four bytes come out, too few for an ELF header), the copy of \<^verbatim>\<open>c.o\<close> fails, \<^verbatim>\<open>d.o\<close> and
  \<^verbatim>\<open>e.o\<close> yield the two objects above. The offload compiler is not beside \<^verbatim>\<open>COLLECT_GCC\<close> but in the
  second and third directory of \<^verbatim>\<open>COMPILER_PATH\<close>.
\<close>

definition sample_world :: world where
  "sample_world =
     \<lparr>files = [''/usr/bin/gcc'' \<mapsto> program_file,
               ''/opt/bin/riscv64-unknown-elf-gcc'' \<mapsto> program_file,
               ''/srv/bin/riscv64-unknown-elf-gcc'' \<mapsto> program_file,
               ''a.o'' \<mapsto> object_file (elf_magic @ [0, 1, 9, 9, 9, 9]),
               ''b.o'' \<mapsto> object_file (elf_magic @ [1, 1, 9, 9, 9, 9]),
               ''c.o'' \<mapsto> object_file (elf_magic @ [1, 0, 9, 9, 9, 9]),
               ''d.o'' \<mapsto> object_file (elf_magic @ [1, 1] @ rela_elf),
               ''e.o'' \<mapsto> object_file (elf_magic @ [1, 1] @ header_only_elf)],
      may_create = (\<lambda>p. True),
      environ = [''COLLECT_GCC'' \<mapsto> ''/usr/bin/gcc'',
                 ''COMPILER_PATH'' \<mapsto> ''/usr/libexec:/opt/bin:/srv/bin'',
                 ''LIBRARY_PATH'' \<mapsto> ''/usr/lib'',
                 ''GCC_EXEC_PREFIX'' \<mapsto> ''/usr/lib/gcc/''],
      files_to_cleanup = [],
      executed = [],
      temp_files_made = 0\<rparr>"

definition sample_argv :: "string list" where
  "sample_argv = [''mkoffload'', ''-fopenmp'', ''-foffload-abi=lp64'', ''-o'', ''out.img'',
                  ''a.o'', ''b.o'', ''c.o'']"

definition save_argv :: "string list" where
  "save_argv = [''mkoffload'', ''-fopenmp'', ''-foffload-abi=lp64'', ''-save-temps'', ''-o'',
                ''out.img'', ''a.o'']"

definition both_argv :: "string list" where
  "both_argv = [''mkoffload'', ''-fopenmp'', ''-foffload-abi=lp64'', ''-fopenacc'', ''a.o'']"

definition dumpbase_argv :: "string list" where
  "dumpbase_argv = [''mkoffload'', ''-foffload-abi=lp64'', ''-dumpbase'', ''-fopenmp'',
                    ''-fopenacc'']"

text \<open>The sample with a bare \<^verbatim>\<open>COLLECT_GCC\<close>, found through \<^verbatim>\<open>PATH\<close>, and nothing else set.\<close>

definition path_world :: world where
  "path_world = sample_world\<lparr>environ := [''COLLECT_GCC'' \<mapsto> ''gcc'']\<rparr>"

text \<open>The sample without \<^verbatim>\<open>COMPILER_PATH\<close> in the environment.\<close>

definition no_compiler_path_world :: world where
  "no_compiler_path_world = unsetenv ''COMPILER_PATH'' sample_world"

text \<open>
  The header of an object for another machine (\<^verbatim>\<open>e_machine\<close> 243, \<^verbatim>\<open>EM_RISCV\<close>), alone in
  its file: as above, the section header table it announces at offset 88 lies past the
  end of the file.
\<close>

definition riscv_header_elf :: "byte list" where
  "riscv_header_elf = replicate 18 0 @ le_bytes 2 243 @ drop 20 header_only_elf"

text \<open>
  A stand-in for the library whose copy writes into the file it finds at the output path
  and leaves the permissions of that file as they are, and a file that may be written
  but not read.
\<close>

definition keeping_ext :: ext where
  "keeping_ext =
     sample_ext\<lparr>simple_object_copy_lto_debug_sections :=
       (\<lambda>bs old. (None, Some ((case old of None \<Rightarrow> new_file | Some n \<Rightarrow> n)
                                   \<lparr>content := drop 6 bs\<rparr>)))\<rparr>"

definition write_only_file :: inode where
  "write_only_file = new_file\<lparr>may_read := False\<rparr>"

subsection \<open>Notions the properties are stated with\<close>

text \<open>
  The arguments the scan of lines 279--304 reads as options: all of them except the one
  that \<^verbatim>\<open>-dumpbase\<close> takes as its operand.
\<close>

fun option_args :: "string list \<Rightarrow> string list" where
  "option_args [] = []"
| "option_args (a # rest) =
     (if a = ''-dumpbase'' \<and> rest \<noteq> [] then a # option_args (tl rest)
      else a # option_args rest)"

text \<open>The exit status a parent process reads: the low eight bits of what \<^verbatim>\<open>main\<close> returns.\<close>

definition exit_status :: "int \<Rightarrow> nat" where
  "exit_status r = nat (r mod 256)"

text \<open>
  The ways the part of \<^verbatim>\<open>main\<close> after the scan can end: \<^verbatim>\<open>return -1\<close>, the assertion, a
  loop that does not end, or one of three fatal errors.
\<close>

definition ends_compile :: "outcome \<Rightarrow> bool" where
  "ends_compile out =
     (case out of
        Returns r \<Rightarrow> r = - 1
      | Fatal_Error m \<Rightarrow>
          m = ''out of memory'' \<or> take 12 m = ''cannot open ''
          \<or> take 23 m = ''nonzero exit status of ''
      | Internal_Error \<Rightarrow> True
      | Crash \<Rightarrow> False
      | Hangs \<Rightarrow> True)"


section \<open>Properties\<close>

subsection \<open>\<^verbatim>\<open>parse_env_var\<close> splits at the colons\<close>

lemma strchr_None_iff: "strchr str p c = None \<longleftrightarrow> c \<notin> set (drop p str)"
  by (simp add: strchr_def)

lemma strchr_Some_split:
  assumes "strchr str p c = Some k"
  shows "drop p str = take (k - p) (drop p str) @ c # drop (Suc k) str"
    and "c \<notin> set (take (k - p) (drop p str))"
proof -
  let ?xs = "drop p str"
  let ?t = "takeWhile (\<lambda>x. x \<noteq> c) ?xs"
  from assms have m: "c \<in> set ?xs" and k: "k = p + length ?t"
    by (auto simp: strchr_def split: if_splits)
  have t: "take (k - p) ?xs = ?t"
    using k by (simp add: takeWhile_eq_take [symmetric])
  have d: "dropWhile (\<lambda>x. x \<noteq> c) ?xs = drop (k - p) ?xs"
    using k by (simp add: dropWhile_eq_drop)
  from m have "dropWhile (\<lambda>x. x \<noteq> c) ?xs \<noteq> []" by simp
  moreover have "hd (dropWhile (\<lambda>x. x \<noteq> c) ?xs) = c"
    using m hd_dropWhile [of "\<lambda>x. x \<noteq> c" ?xs] by auto
  ultimately have "dropWhile (\<lambda>x. x \<noteq> c) ?xs = c # tl (dropWhile (\<lambda>x. x \<noteq> c) ?xs)"
    by (cases "dropWhile (\<lambda>x. x \<noteq> c) ?xs") auto
  then have "drop (k - p) ?xs = c # drop (Suc (k - p)) ?xs"
    using d by (simp add: drop_Suc tl_drop)
  moreover have "drop (Suc (k - p)) ?xs = drop (Suc k) str"
    using k by (simp add: add.commute)
  ultimately have "drop (k - p) ?xs = c # drop (Suc k) str" by simp
  then show "drop p str = take (k - p) (drop p str) @ c # drop (Suc k) str"
    by (metis append_take_drop_id)
  show "c \<notin> set (take (k - p) (drop p str))"
    unfolding t by (auto dest: set_takeWhileD)
qed

lemma count_list_notin: "c \<notin> set xs \<Longrightarrow> count_list xs c = 0"
  by (induction xs) auto

text \<open>The counting loop adds the number of colons, modulo \<open>2 ^ 32\<close>.\<close>

lemma count_loop_eq:
  "count_loop str (strchr str p CHR '':'') num
     = num + word_of_nat (count_list (drop p str) CHR '':'')"
proof (induction "length str - p" arbitrary: p num rule: less_induct)
  case less
  show ?case
  proof (cases "strchr str p CHR '':''")
    case None
    then have "CHR '':'' \<notin> set (drop p str)"
      by (simp add: strchr_None_iff)
    then show ?thesis
      by (simp add: None count_list_notin)
  next
    case (Some k)
    note sp = strchr_Some_split [OF Some]
    from strchr_Some_bounds [OF Some] have b: "p \<le> k" "k < length str" by simp_all
    then have "length str - (k + 1) < length str - p" by arith
    from less [OF this]
    have ih: "count_loop str (strchr str (k + 1) CHR '':'') (num + 1)
                = num + 1 + word_of_nat (count_list (drop (k + 1) str) CHR '':'')" .
    have "count_list (drop p str) CHR '':''
            = count_list (take (k - p) (drop p str) @ CHR '':'' # drop (Suc k) str) CHR '':''"
      using sp(1) by simp
    also have "\<dots> = Suc (count_list (drop (Suc k) str) CHR '':'')"
      using sp(2) by (simp add: count_list_notin)
    finally have c: "count_list (drop p str) CHR '':'' = Suc (count_list (drop (Suc k) str) CHR '':'')" .
    show ?thesis
      using Some ih c by simp
  qed
qed

lemma colon_fields_not_Nil [simp]: "colon_fields s \<noteq> []"
  by (induction s) (auto split: list.splits)

lemma length_colon_fields: "length (colon_fields s) = Suc (count_list s CHR '':'')"
  by (induction s) (auto split: list.splits)

lemma colon_fields_no_colon: "CHR '':'' \<notin> set v \<Longrightarrow> colon_fields v = [v]"
  by (induction v) auto

lemma colon_fields_append:
  "CHR '':'' \<notin> set v \<Longrightarrow> colon_fields (v @ CHR '':'' # rest) = v # colon_fields rest"
  by (induction v) auto

lemma colon_fields_free: "f \<in> set (colon_fields s) \<Longrightarrow> CHR '':'' \<notin> set f"
  by (induction s arbitrary: f) (auto split: list.splits if_splits)

lemma colon_join_Cons: "fs \<noteq> [] \<Longrightarrow> colon_join (f # fs) = f @ CHR '':'' # colon_join fs"
  by (cases fs) auto

lemma colon_join_fields: "colon_join (colon_fields s) = s"
proof (induction s)
  case Nil
  show ?case by simp
next
  case (Cons c cs)
  show ?case
  proof (cases "c = CHR '':''")
    case True
    then show ?thesis using Cons by (simp add: colon_join_Cons)
  next
    case False
    obtain f fs where e: "colon_fields cs = f # fs"
      by (cases "colon_fields cs") auto
    have "colon_join ((c # f) # fs) = c # colon_join (f # fs)"
      by (cases fs) auto
    then show ?thesis using False e Cons by simp
  qed
qed

text \<open>\<^verbatim>\<open>int l\<close>: the low 32 bits of a length, as a signed number.\<close>

lemma sint_word32:
  "sint (word_of_nat n :: 32 word) = (int n + 2147483648) mod 4294967296 - 2147483648"
  using int_word_sint [of "int n", where 'a = 32] by simp

lemma sint_of_nat_32: "n < 2147483648 \<Longrightarrow> sint (word_of_nat n :: 32 word) = int n"
  unfolding sint_word32 by simp

text \<open>\<^verbatim>\<open>l + 1\<close>, formed in \<^verbatim>\<open>int\<close>: no overflow below \<open>2 ^ 31 - 1\<close>.\<close>

lemma sint_of_nat_32_plus_1:
  assumes "n < 2147483647"
  shows "sint (word_of_nat n + 1 :: 32 word) = int n + 1"
proof -
  have "(word_of_nat n + 1 :: 32 word) = word_of_nat (Suc n)"
    by simp
  moreover from assms have "Suc n < 2147483648"
    by simp
  ultimately show ?thesis
    using sint_of_nat_32 [of "Suc n"] by (simp add: add.commute)
qed

text \<open>
  The copying loop, started at the beginning of a field with as many iterations as
  fields remain, returns the fields, provided each length plus one fits an \<^verbatim>\<open>int\<close>.
\<close>

lemma values_loop_fields:
  assumes "cur \<le> length str"
    and "n = length (colon_fields (drop cur str))"
    and "\<forall>f \<in> set (colon_fields (drop cur str)). length f < 2147483647"
  shows "values_loop n str cur (field_end str cur) = Some (colon_fields (drop cur str))"
  using assms
proof (induction n arbitrary: cur)
  case 0
  then show ?case by simp
next
  case (Suc m)
  show ?case
  proof (cases "strchr str cur CHR '':''")
    case None
    then have nc: "CHR '':'' \<notin> set (drop cur str)"
      by (simp add: strchr_None_iff)
    then have cf: "colon_fields (drop cur str) = [drop cur str]"
      by (rule colon_fields_no_colon)
    with Suc.prems have m: "m = 0" and len: "length str - cur < 2147483647"
      by simp_all
    have fe: "field_end str cur = Some (length str)"
      using Suc.prems(1) None by (simp add: field_end_def)
    show ?thesis
      using m len cf by (simp add: fe sint_of_nat_32 sint_of_nat_32_plus_1 Let_def)
  next
    case (Some k)
    note sp = strchr_Some_split [OF Some]
    from strchr_Some_bounds [OF Some] have b: "cur \<le> k" "k < length str" by simp_all
    let ?v = "take (k - cur) (drop cur str)"
    have cf: "colon_fields (drop cur str) = ?v # colon_fields (drop (Suc k) str)"
      using colon_fields_append [OF sp(2), of "drop (Suc k) str"] sp(1) by simp
    have lv: "length ?v = k - cur"
      using b by simp
    from Suc.prems cf lv have m: "m = length (colon_fields (drop (Suc k) str))"
      and len: "k - cur < 2147483647"
      and rest: "\<forall>f \<in> set (colon_fields (drop (Suc k) str)). length f < 2147483647"
      by simp_all
    from b have "Suc k \<le> length str" by simp
    from Suc.IH [OF this m rest]
    have ih: "values_loop m str (Suc k) (field_end str (Suc k))
                = Some (colon_fields (drop (Suc k) str))" .
    have fe: "field_end str cur = Some k"
      using Suc.prems(1) Some by (simp add: field_end_def)
    show ?thesis
      using len by (simp add: fe ih cf sint_of_nat_32 sint_of_nat_32_plus_1 Let_def)
  qed
qed

lemma parse_env_var_colon_fields:
  assumes "count_list s CHR '':'' + 1 < 2 ^ 32"
    and "\<forall>f \<in> set (colon_fields s). length f < 2 ^ 31 - 1"
  shows "parse_env_var s = Some (word_of_nat (count_list s CHR '':'' + 1), colon_fields s)"
    and "unat (word_of_nat (count_list s CHR '':'' + 1) :: 32 word) = count_list s CHR '':'' + 1"
proof -
  let ?k = "count_list s CHR '':''"
  have num: "count_loop s (strchr s 0 CHR '':'') 1 = word_of_nat (?k + 1)"
    using count_loop_eq [of s 0 1] by simp
  show u: "unat (word_of_nat (?k + 1) :: 32 word) = ?k + 1"
    using assms(1) unat_of_nat [of "?k + 1", where 'a = 32] by simp
  have v: "values_loop (?k + 1) s 0 (field_end s 0) = Some (colon_fields s)"
    using values_loop_fields [of 0 s "?k + 1"] assms(2) by (simp add: length_colon_fields)
  show "parse_env_var s = Some (word_of_nat (?k + 1), colon_fields s)"
    unfolding parse_env_var_def num Let_def u v by simp
qed

text \<open>
  C9, as amended. For every string with at most \<open>2 ^ 32 - 2\<close> colons whose
  colon-separated fields are each shorter than \<open>2 ^ 31 - 1\<close> characters (so that the
  length and the allocation size \<open>l + 1\<close> fit the \<^verbatim>\<open>int\<close> they are computed in), \<^verbatim>\<open>parse_env_var\<close>
  returns \<open>k + 1\<close> for \<open>k\<close> colons and exactly \<open>k + 1\<close> strings; they are the fields in
  order: none contains a colon, and joined with colons they give the string back.
\<close>

theorem parse_env_var_fields:
  assumes "count_list s CHR '':'' + 1 < 2 ^ 32"
    and "\<forall>f \<in> set (colon_fields s). length f < 2 ^ 31 - 1"
  shows "parse_env_var s = Some (word_of_nat (count_list s CHR '':'' + 1), colon_fields s)
         \<and> unat (word_of_nat (count_list s CHR '':'' + 1) :: 32 word) = count_list s CHR '':'' + 1
         \<and> length (colon_fields s) = count_list s CHR '':'' + 1
         \<and> (\<forall>f \<in> set (colon_fields s). CHR '':'' \<notin> set f)
         \<and> colon_join (colon_fields s) = s"
  using parse_env_var_colon_fields [OF assms]
  by (simp add: length_colon_fields colon_join_fields colon_fields_free
           del: of_nat_Suc of_nat_add)

theorem parse_env_var_fields_witness:
  "parse_env_var ''/usr/bin:/opt::x'' = Some (4, [''/usr/bin'', ''/opt'', [], ''x''])
   \<and> colon_join [''/usr/bin'', ''/opt'', [], ''x''] = ''/usr/bin:/opt::x''
   \<and> parse_env_var [] = Some (1, [[]])"
  using parse_env_var_fields [of "''/usr/bin:/opt::x''"] parse_env_var_fields [of "[]"]
  by simp

text \<open>
  Where the counter wraps, the loop makes fewer copies than there are fields; where a
  field has \<open>2 ^ 31 - 1\<close> characters, the size \<open>l + 1\<close> overflows and the allocation ends
  the process.
\<close>

lemma count_list_replicate_self: "count_list (replicate n c) c = n"
  by (induction n) auto

lemma parse_env_var_wrap:
  assumes "0 < n" and "(word_of_nat n :: 32 word) = 0"
  shows "parse_env_var (replicate n CHR '':'') = Some (1, [[]])"
proof -
  let ?s = "replicate n CHR '':''"
  have num: "count_loop ?s (strchr ?s 0 CHR '':'') 1 = 1"
    using count_loop_eq [of ?s 0 1] assms(2) by (simp add: count_list_replicate_self)
  have st: "strchr ?s 0 CHR '':'' = Some 0"
    using assms(1) by (simp add: strchr_def)
  have fe: "field_end ?s 0 = Some 0"
    by (simp add: field_end_def st)
  have "values_loop (Suc 0) ?s 0 (Some 0) = Some [[]]"
    by simp
  then show ?thesis
    unfolding parse_env_var_def num fe by simp
qed

lemma parse_env_var_long_field:
  "parse_env_var (replicate 2147483647 CHR ''a'') = None"
proof -
  let ?s = "replicate 2147483647 CHR ''a''"
  have st: "strchr ?s 0 CHR '':'' = None"
    by (simp add: strchr_def)
  have fe: "field_end ?s 0 = Some 2147483647"
    by (simp add: field_end_def st)
  have "values_loop (Suc 0) ?s 0 (Some 2147483647) = None"
    by simp
  then show ?thesis
    unfolding parse_env_var_def st fe by simp
qed

text \<open>
  C9 as stated fails outside the range of the two counters. A string of \<open>2 ^ 32\<close> colons
  has \<open>2 ^ 32 + 1\<close> fields, but \<^verbatim>\<open>num\<close> comes back to 1 and one string is returned. A
  string of \<open>2 ^ 31 - 1\<close> letters and no colon is one field, but \<^verbatim>\<open>xmalloc (l + 1)\<close> is
  asked for a negative size and nothing is returned.
\<close>

theorem parse_env_var_count_counterexample:
  "count_list (replicate (2 ^ 32) CHR '':'') CHR '':'' + 1 = 2 ^ 32 + 1
   \<and> parse_env_var (replicate (2 ^ 32) CHR '':'') = Some (1, [[]])
   \<and> count_list (replicate 2147483647 CHR ''a'') CHR '':'' = 0
   \<and> parse_env_var (replicate 2147483647 CHR ''a'') = None"
proof -
  have "(word_of_nat (2 ^ 32) :: 32 word) = 0"
    by simp
  from parse_env_var_wrap [OF _ this]
  have a: "parse_env_var (replicate (2 ^ 32) CHR '':'') = Some (1, [[]])"
    by simp
  have b: "count_list (replicate 2147483647 CHR ''a'') CHR '':'' = 0"
    by (rule count_list_0_iff [THEN iffD2]) simp
  show ?thesis
    unfolding a b parse_env_var_long_field
    by (simp only: count_list_replicate_self)
qed

subsection \<open>The locator probes in order and stops at the first hit\<close>

lemma access_check_X_OK:
  "access_check fs name X_OK = 0
     \<longleftrightarrow> (\<exists>st. fs name = Some st \<and> file_type st \<noteq> Directory \<and> may_execute st)"
  by (auto simp: access_check_def access_def stat_def S_ISDIR_def split: option.splits)

lemma search_paths_first:
  "search_paths X fs dirs =
     (map (\<lambda>p. p @ ''/'' @ GCC_INSTALL_NAME X)
        (takeWhile (\<lambda>p. access_check fs (p @ ''/'' @ GCC_INSTALL_NAME X) X_OK \<noteq> 0) dirs
         @ take 1 (dropWhile (\<lambda>p. access_check fs (p @ ''/'' @ GCC_INSTALL_NAME X) X_OK \<noteq> 0) dirs)),
      map_option (\<lambda>p. p @ ''/'' @ GCC_INSTALL_NAME X)
        (find (\<lambda>p. access_check fs (p @ ''/'' @ GCC_INSTALL_NAME X) X_OK = 0) dirs))"
  by (induction dirs) (auto simp: Let_def)

lemma search_paths_accepted:
  "snd (search_paths X fs dirs) = Some d \<Longrightarrow> access_check fs d X_OK = 0"
  by (induction dirs) (auto simp: Let_def split: if_splits prod.splits)

text \<open>
  C8, as amended. \<^verbatim>\<open>access_check\<close> accepts a path for execution exactly when it exists,
  is not a directory and may be executed. When \<^verbatim>\<open>COLLECT_GCC\<close> has no directory part the
  locator probes nothing and takes \<^verbatim>\<open>GCC_INSTALL_NAME\<close> as it is; when it has one, every
  path the locator returns has passed \<^verbatim>\<open>access_check\<close>. When the candidate beside
  \<^verbatim>\<open>COLLECT_GCC\<close> is rejected, the directories of \<^verbatim>\<open>COMPILER_PATH\<close>, as \<^verbatim>\<open>parse_env_var\<close>
  returns them, are probed in their order: the probes made are the candidates of the
  rejected directories before the first accepted one, then that one and no other; the
  locator returns it, and ends with the fatal error when every directory is rejected.
\<close>

theorem locator_first_match:
  assumes "getenv w ''COLLECT_GCC'' = Some collect_gcc"
    and "candidate = (\<lambda>p. p @ ''/'' @ GCC_INSTALL_NAME X)"
    and "rejected = (\<lambda>p. access_check (files w) (candidate p) X_OK \<noteq> 0)"
  shows "(access_check (files w) name X_OK = 0
            \<longleftrightarrow> (\<exists>st. files w name = Some st \<and> file_type st \<noteq> Directory \<and> may_execute st))
         \<and> (basename collect_gcc = collect_gcc \<longrightarrow> find_driver X w = Inr (GCC_INSTALL_NAME X))
         \<and> (basename collect_gcc \<noteq> collect_gcc \<and> find_driver X w = Inr d
              \<longrightarrow> access_check (files w) d X_OK = 0)
         \<and> (basename collect_gcc \<noteq> collect_gcc \<and> rejected (dirname collect_gcc)
              \<and> getenv w ''COMPILER_PATH'' = Some str \<and> parse_env_var str = Some (n_paths, dirs)
              \<longrightarrow> fst (search_paths X (files w) dirs)
                    = map candidate (takeWhile rejected dirs @ take 1 (dropWhile rejected dirs))
                  \<and> find_driver X w
                    = (case dropWhile rejected dirs of
                         [] \<Rightarrow> Inl (Fatal_Error (''offload compiler '' @ GCC_INSTALL_NAME X
                                                   @ '' not found''))
                       | p # ps \<Rightarrow> Inr (candidate p)))"
proof -
  have a: "access_check (files w) name X_OK = 0
            \<longleftrightarrow> (\<exists>st. files w name = Some st \<and> file_type st \<noteq> Directory \<and> may_execute st)"
    by (rule access_check_X_OK)
  have b: "find_driver X w = Inr (GCC_INSTALL_NAME X)" if "basename collect_gcc = collect_gcc"
    using assms(1) that by (simp add: find_driver_def)
  have c: "access_check (files w) d X_OK = 0"
    if "basename collect_gcc \<noteq> collect_gcc" and "find_driver X w = Inr d"
    using assms(1) that
    by (auto simp: find_driver_def Let_def split: if_splits option.splits prod.splits
             dest: search_paths_accepted)
  have e: "fst (search_paths X (files w) dirs)
             = map candidate (takeWhile rejected dirs @ take 1 (dropWhile rejected dirs))
           \<and> find_driver X w
             = (case dropWhile rejected dirs of
                  [] \<Rightarrow> Inl (Fatal_Error (''offload compiler '' @ GCC_INSTALL_NAME X @ '' not found''))
                | p # ps \<Rightarrow> Inr (candidate p))"
    if n: "basename collect_gcc \<noteq> collect_gcc" and r: "rejected (dirname collect_gcc)"
      and cp: "getenv w ''COMPILER_PATH'' = Some str" and pe: "parse_env_var str = Some (n_paths, dirs)"
  proof -
    have f: "find (\<lambda>p. \<not> rejected p) dirs
               = (case dropWhile rejected dirs of [] \<Rightarrow> None | p # ps \<Rightarrow> Some p)"
      by (induction dirs) auto
    have s: "search_paths X (files w) dirs
               = (map candidate (takeWhile rejected dirs @ take 1 (dropWhile rejected dirs)),
                  map_option candidate (find (\<lambda>p. \<not> rejected p) dirs))"
      unfolding assms(2,3) by (simp add: search_paths_first)
    have d: "find_driver X w
               = (case snd (search_paths X (files w) dirs) of
                    None \<Rightarrow> Inl (Fatal_Error (''offload compiler '' @ GCC_INSTALL_NAME X @ '' not found''))
                  | Some found \<Rightarrow> Inr found)"
      using assms(1) n r cp pe unfolding assms(2,3) by (simp add: find_driver_def Let_def)
    show ?thesis
    proof (cases "dropWhile rejected dirs")
      case Nil
      show ?thesis
        unfolding d s f Nil by simp
    next
      case (Cons p ps)
      show ?thesis
        unfolding d s f Cons by simp
    qed
  qed
  from a b c e show ?thesis
    by blast
qed

theorem locator_first_match_witness:
  "find_driver sample_ext sample_world = Inr ''/opt/bin/riscv64-unknown-elf-gcc''
   \<and> fst (search_paths sample_ext (files sample_world) [''/usr/libexec'', ''/opt/bin'', ''/srv/bin''])
       = [''/usr/libexec/riscv64-unknown-elf-gcc'', ''/opt/bin/riscv64-unknown-elf-gcc'']
   \<and> access_check (files sample_world) ''/srv/bin/riscv64-unknown-elf-gcc'' X_OK = 0
   \<and> access_check (files sample_world) ''/opt/bin/riscv64-unknown-elf-gcc'' X_OK = 0
   \<and> find_driver sample_ext path_world = Inr ''riscv64-unknown-elf-gcc''"
proof -
  have p: "parse_env_var ''/usr/libexec:/opt/bin:/srv/bin''
             = Some (3, [''/usr/libexec'', ''/opt/bin'', ''/srv/bin''])"
    using parse_env_var_colon_fields [of "''/usr/libexec:/opt/bin:/srv/bin''"] by simp
  have g: "getenv sample_world ''COLLECT_GCC'' = Some ''/usr/bin/gcc''"
    "getenv path_world ''COLLECT_GCC'' = Some ''gcc''"
    by (simp_all add: getenv_def sample_world_def path_world_def)
  from locator_first_match [OF g(1) refl refl, where X = sample_ext
      and name = "''/srv/bin/riscv64-unknown-elf-gcc''"
      and d = "''/opt/bin/riscv64-unknown-elf-gcc''"
      and str = "''/usr/libexec:/opt/bin:/srv/bin''" and n_paths = 3
      and dirs = "[''/usr/libexec'', ''/opt/bin'', ''/srv/bin'']"]
    locator_first_match [OF g(2) refl refl, where X = sample_ext]
  show ?thesis
    by (simp add: p sample_world_def sample_ext_def getenv_def basename_def dirname_def
          strip_slashes_def access_check_def access_def stat_def S_ISDIR_def program_file_def)
qed

text \<open>
  C8 as stated fails when \<^verbatim>\<open>COLLECT_GCC\<close> is a bare name: the locator accepts
  \<^verbatim>\<open>GCC_INSTALL_NAME\<close> (lines 245--246) though no such file exists.
\<close>

theorem locator_unprobed_counterexample:
  "find_driver sample_ext path_world = Inr ''riscv64-unknown-elf-gcc''
   \<and> files path_world ''riscv64-unknown-elf-gcc'' = None
   \<and> access_check (files path_world) ''riscv64-unknown-elf-gcc'' X_OK = - 1"
  by code_simp

subsection \<open>\<^verbatim>\<open>copy_early_debug_info\<close>: the failed copy and the unreadable output\<close>

text \<open>
  C7. When the input is opened and recognised, has the debug section, and the copy of the
  debug sections reports an error, the function returns false and no ordinary file is
  left at the output path: what the copy left there is removed unless it is a directory
  or a device. No other path changes.
\<close>

theorem copy_failure_removes_output:
  assumes "fs infile = Some inobj"
    and "may_read inobj"
    and "file_type inobj \<noteq> Directory"
    and "simple_object_start_read X (content inobj)"
    and "simple_object_find_section X (content inobj) ''.gnu.debuglto_.debug_info''"
    and "simple_object_copy_lto_debug_sections X (content inobj) (fs outfile) = (Some errmsg, out)"
  shows "fst (copy_early_debug_info X infile outfile fs) = Inr False
         \<and> snd (copy_early_debug_info X infile outfile fs) outfile
             = (case out of
                  None \<Rightarrow> None
                | Some n \<Rightarrow> if file_type n = Regular_File then None else Some n)
         \<and> (\<forall>p. p \<noteq> outfile \<longrightarrow> snd (copy_early_debug_info X infile outfile fs) p = fs p)"
  using assms
  by (auto simp: copy_early_debug_info_def unlink_if_ordinary_def split: option.splits)

theorem copy_failure_removes_output_witness:
  "fst (copy_early_debug_info sample_ext ''c.o'' ''/tmp/c.dbg.o'' (files sample_world)) = Inr False
   \<and> snd (copy_early_debug_info sample_ext ''c.o'' ''/tmp/c.dbg.o'' (files sample_world))
        ''/tmp/c.dbg.o'' = None
   \<and> simple_object_copy_lto_debug_sections sample_ext (elf_magic @ [1, 0, 9, 9, 9, 9]) None
        = (Some ''write error'', Some (new_file\<lparr>content := [9, 9, 9]\<rparr>))"
  using copy_failure_removes_output [of "files sample_world" "''c.o''"
      "object_file (elf_magic @ [1, 0, 9, 9, 9, 9])" sample_ext "''/tmp/c.dbg.o''"
      "''write error''" "Some (new_file\<lparr>content := [9, 9, 9]\<rparr>)"]
  by (simp add: sample_world_def sample_ext_def object_file_def elf_magic_def new_file_def)

text \<open>
  C10, as amended. After a successful copy that left a file at the output path which the
  function can reopen for reading and writing, it returns true when \<^verbatim>\<open>fread\<close> cannot
  deliver the whole ELF header, and also when the header is read, records the machine
  \<^verbatim>\<open>EM_X86_64\<close> (the assertion of line 150), the allocation for the section headers
  succeeds, and the table of section headers cannot be read back: \<^verbatim>\<open>fseek\<close> to \<^verbatim>\<open>e_shoff\<close>
  fails or \<^verbatim>\<open>fread\<close> delivers fewer than \<^verbatim>\<open>e_shnum\<close> headers. The relocation pass is
  skipped and the output stays as the copy wrote it.
\<close>

theorem read_back_failure_is_success:
  assumes "fs infile = Some inobj"
    and "may_read inobj"
    and "file_type inobj \<noteq> Directory"
    and "simple_object_start_read X (content inobj)"
    and "simple_object_find_section X (content inobj) ''.gnu.debuglto_.debug_info''"
    and "simple_object_copy_lto_debug_sections X (content inobj) (fs outfile) = (None, Some out)"
    and "file_type out \<noteq> Directory" and "may_read out" and "may_write out"
    and "ehdr = read_Elf64_Ehdr X (take (sizeof_Elf64_Ehdr X) (content out))"
    and "fread (content out) 0 (sizeof_Elf64_Ehdr X) 1 \<noteq> 1
         \<or> (e_machine ehdr = EM_X86_64 X
            \<and> \<not> xmalloc_fails X (sizeof_Elf64_Shdr X * unat (e_shnum ehdr))
            \<and> (case fseek_set (e_shoff ehdr) of
                  None \<Rightarrow> True
                | Some pos \<Rightarrow>
                    fread (content out) pos (sizeof_Elf64_Shdr X) (unat (e_shnum ehdr))
                      \<noteq> unat (e_shnum ehdr)))"
  shows "copy_early_debug_info X infile outfile fs = (Inr True, fs(outfile \<mapsto> out))"
  using assms
  by (auto simp: copy_early_debug_info_def adjust_output_def Let_def split: option.splits)

theorem read_back_failure_is_success_witness:
  "copy_early_debug_info sample_ext ''b.o'' ''/tmp/b.dbg.o'' (files sample_world)
     = (Inr True, (files sample_world)(''/tmp/b.dbg.o'' \<mapsto> new_file\<lparr>content := [9, 9, 9, 9]\<rparr>))
   \<and> copy_early_debug_info sample_ext ''e.o'' ''/tmp/e.dbg.o'' (files sample_world)
     = (Inr True, (files sample_world)(''/tmp/e.dbg.o'' \<mapsto> new_file\<lparr>content := header_only_elf\<rparr>))
   \<and> fread [9, 9, 9, 9] 0 (sizeof_Elf64_Ehdr sample_ext) 1 = 0
   \<and> fread header_only_elf 0 (sizeof_Elf64_Ehdr sample_ext) 1 = 1
   \<and> fread header_only_elf 88 (sizeof_Elf64_Shdr sample_ext) 1 = 0"
proof -
  let ?b = "new_file\<lparr>content := [9, 9, 9, 9]\<rparr>"
  let ?e = "new_file\<lparr>content := header_only_elf\<rparr>"
  have fb: "files sample_world ''b.o'' = Some (object_file (elf_magic @ [1, 1, 9, 9, 9, 9]))"
    and fe: "files sample_world ''e.o'' = Some (object_file (elf_magic @ [1, 1] @ header_only_elf))"
    by (simp_all add: sample_world_def)
  have cb: "simple_object_copy_lto_debug_sections sample_ext
              (content (object_file (elf_magic @ [1, 1, 9, 9, 9, 9])))
              (files sample_world ''/tmp/b.dbg.o'') = (None, Some ?b)"
    and ce: "simple_object_copy_lto_debug_sections sample_ext
              (content (object_file (elf_magic @ [1, 1] @ header_only_elf)))
              (files sample_world ''/tmp/e.dbg.o'') = (None, Some ?e)"
    by (simp_all add: sample_ext_def object_file_def elf_magic_def)
  have rb: "fread [9, 9, 9, 9] 0 (sizeof_Elf64_Ehdr sample_ext) 1 = 0"
    by (simp add: fread_def sample_ext_def)
  have re: "fread header_only_elf 0 64 (Suc 0) = Suc 0"
    "fread header_only_elf 88 64 (Suc 0) = 0"
    by code_simp+
  have he: "e_machine (elf64_ehdr (take 64 header_only_elf)) = 62"
    "fseek_set (e_shoff (elf64_ehdr (take 64 header_only_elf))) = Some 88"
    "unat (e_shnum (elf64_ehdr (take 64 header_only_elf))) = Suc 0"
    by code_simp+
  have b: "copy_early_debug_info sample_ext ''b.o'' ''/tmp/b.dbg.o'' (files sample_world)
             = (Inr True, (files sample_world)(''/tmp/b.dbg.o'' \<mapsto> ?b))"
    by (rule read_back_failure_is_success [OF fb _ _ _ _ cb _ _ _ refl])
       (simp_all add: object_file_def new_file_def sample_ext_def elf_magic_def fread_def)
  have e: "copy_early_debug_info sample_ext ''e.o'' ''/tmp/e.dbg.o'' (files sample_world)
             = (Inr True, (files sample_world)(''/tmp/e.dbg.o'' \<mapsto> ?e))"
    by (rule read_back_failure_is_success [OF fe _ _ _ _ ce _ _ _ refl])
       (simp_all add: object_file_def new_file_def elf_magic_def sample_ext_def he re)
  from b e rb re show ?thesis
    by (simp add: sample_ext_def)
qed

text \<open>
  C10 as stated fails where the output cannot be read back for one of two other reasons.
  The copy of \<^verbatim>\<open>b.o\<close> into a file that may be written but not read succeeds, the output
  cannot be reopened (lines 138--140), nothing of it is read back, and the function
  returns false. The copy of an object whose output is the header of another machine
  succeeds, the header is read, its section header table lies past the end of the file,
  and the function does not return: the assertion of line 150 aborts the run.
\<close>

theorem read_back_failure_counterexample:
  "fst (simple_object_copy_lto_debug_sections keeping_ext (elf_magic @ [1, 1, 9, 9, 9, 9])
          (Some write_only_file)) = None
   \<and> fst (copy_early_debug_info keeping_ext ''b.o'' ''/tmp/b.dbg.o''
            ((files sample_world)(''/tmp/b.dbg.o'' \<mapsto> write_only_file))) = Inr False
   \<and> snd (copy_early_debug_info keeping_ext ''b.o'' ''/tmp/b.dbg.o''
            ((files sample_world)(''/tmp/b.dbg.o'' \<mapsto> write_only_file))) ''/tmp/b.dbg.o''
       = Some (write_only_file\<lparr>content := [9, 9, 9, 9]\<rparr>)
   \<and> fst (simple_object_copy_lto_debug_sections sample_ext
            (elf_magic @ [1, 1] @ riscv_header_elf) None) = None
   \<and> fread riscv_header_elf 0 (sizeof_Elf64_Ehdr sample_ext) 1 = 1
   \<and> fseek_set (e_shoff (read_Elf64_Ehdr sample_ext riscv_header_elf)) = Some 88
   \<and> fread riscv_header_elf 88 (sizeof_Elf64_Shdr sample_ext) 1 = 0
   \<and> fst (copy_early_debug_info sample_ext ''f.o'' ''/tmp/f.dbg.o''
            ((files sample_world)(''f.o'' \<mapsto> object_file (elf_magic @ [1, 1] @ riscv_header_elf))))
       = Inl Internal_Error
   \<and> snd (copy_early_debug_info sample_ext ''f.o'' ''/tmp/f.dbg.o''
            ((files sample_world)(''f.o'' \<mapsto> object_file (elf_magic @ [1, 1] @ riscv_header_elf))))
         ''/tmp/f.dbg.o''
       = Some (new_file\<lparr>content := riscv_header_elf\<rparr>)"
  by code_simp

subsection \<open>The loop over the relocation records\<close>

lemma reloc_loop_Some_zero:
  assumes "reloc_loop offset sz entsize = Some u"
  shows "entsize = 0 \<longrightarrow> \<not> offset < sz"
  by (rule reloc_loop.raw_induct
        [where P = "\<lambda>offset sz entsize u. entsize = 0 \<longrightarrow> \<not> offset < sz", OF _ assms])
     (auto split: if_splits)

text \<open>With an entry size of zero the loop does not end.\<close>

lemma reloc_loop_zero_entsize:
  assumes "offset < sz"
  shows "reloc_loop offset sz 0 = None"
  using assms reloc_loop_Some_zero [of offset sz 0] by (cases "reloc_loop offset sz 0") auto

text \<open>An entry size that cannot wrap the offset around ends it.\<close>

lemma reloc_loop_ends:
  assumes "entsize \<noteq> 0" and "unat sz + unat entsize < 2 ^ 64"
  shows "reloc_loop offset sz entsize = Some ()"
  using assms
proof (induction "unat sz - unat offset" arbitrary: offset rule: less_induct)
  case less
  show ?case
  proof (cases "offset < sz")
    case False
    then show ?thesis
      by (subst reloc_loop.simps) simp
  next
    case True
    then have lt: "unat offset < unat sz"
      by (simp add: word_less_nat_alt)
    with less.prems(2) have nw: "unat offset + unat entsize < 2 ^ 64"
      by simp
    then have u: "unat (offset + entsize) = unat offset + unat entsize"
      by (simp add: unat_add_lem [THEN iffD1])
    from less.prems(1) have "0 < unat entsize"
      by (simp add: unat_gt_0)
    with u lt have "unat sz - unat (offset + entsize) < unat sz - unat offset"
      by arith
    from less.hyps [OF this less.prems] True show ?thesis
      by (subst reloc_loop.simps) simp
  qed
qed

text \<open>
  So a relocation section that can be read and declares an entry size of zero keeps
  \<^verbatim>\<open>copy_early_debug_info\<close> from returning.
\<close>

lemma walk_sections_hangs:
  assumes "sh_type s = SHT_RELA X"
    and "\<not> xmalloc_fails X (unat (sh_size s))"
    and "fseek_set (sh_offset s) = Some pos"
    and "fread data pos (unat (sh_size s)) 1 = 1"
    and "sh_entsize s = 0"
  shows "walk_sections X data (s # sections) = Inl Hangs"
proof -
  from assms(4) have "unat (sh_size s) \<noteq> 0"
    by (auto simp: fread_def split: if_splits)
  then have "0 < sh_size s"
    by (simp add: word_greater_zero_iff unat_eq_zero)
  then have "reloc_loop 0 (sh_size s) (sh_entsize s) = None"
    unfolding assms(5) by (rule reloc_loop_zero_entsize)
  with assms(1-4) show ?thesis
    by simp
qed

subsection \<open>How \<^verbatim>\<open>main\<close> can end\<close>

lemma walk_sections_outcome:
  "walk_sections X data sections = Inl out \<Longrightarrow> out = Hangs \<or> out = Fatal_Error ''out of memory''"
  by (induction sections) (auto split: if_splits option.splits)

lemma adjust_output_outcome:
  "adjust_output X n = Inl out
     \<Longrightarrow> out = Hangs \<or> out = Internal_Error \<or> out = Fatal_Error ''out of memory''"
  by (auto simp: adjust_output_def Let_def split: if_splits option.splits
           dest: walk_sections_outcome)

lemma copy_early_debug_info_outcome:
  "copy_early_debug_info X infile outfile fs = (Inl out, fs')
     \<Longrightarrow> out = Hangs \<or> out = Internal_Error \<or> out = Fatal_Error ''out of memory''"
  by (auto simp: copy_early_debug_info_def split: if_splits option.splits prod.splits
           dest: adjust_output_outcome)

lemma debug_objects_outcome:
  "debug_objects X save pfx args ld_argv dbgcount w = (Inl out, w')
     \<Longrightarrow> out = Hangs \<or> out = Internal_Error \<or> out = Fatal_Error ''out of memory''"
proof (induction X save pfx args ld_argv dbgcount w rule: debug_objects.induct)
  case (1 X save pfx ld_argv dbgcount w)
  then show ?case by simp
next
  case (2 X save pfx a rest ld_argv dbgcount w)
  show ?case
  proof (cases "a = ''-o'' \<and> rest \<noteq> []")
    case True
    with 2 show ?thesis by simp
  next
    case no: False
    show ?thesis
    proof (cases "ends_in_dot_o a")
      case False
      with 2 no show ?thesis by simp
    next
      case True
      obtain dbgobj w1 where n: "(if save
               then (concat_from pfx [''.mkoffload.dbg'', decimal dbgcount, ''.o''], w)
               else make_temp_file X ''.mkoffload.dbg.o'' w) = (dbgobj, w1)"
        by (cases "(if save
               then (concat_from pfx [''.mkoffload.dbg'', decimal dbgcount, ''.o''], w)
               else make_temp_file X ''.mkoffload.dbg.o'' w)") auto
      obtain r fs where c: "copy_early_debug_info X a dbgobj
              (files (obstack_ptr_grow (Registered dbgobj) w1)) = (r, fs)"
        by (cases "copy_early_debug_info X a dbgobj
              (files (obstack_ptr_grow (Registered dbgobj) w1))") auto
      show ?thesis
      proof (cases r)
        case (Inl o')
        with 2(5) no True n c copy_early_debug_info_outcome [of X a dbgobj _ o' fs]
        show ?thesis by (auto simp: Let_def)
      next
        case (Inr ok)
        show ?thesis
        proof (cases ok)
          case True
          note ok = this
          from 2(3) [OF no _ n [symmetric] refl refl c [symmetric] Inr ok] \<open>ends_in_dot_o a\<close>
            2(5) no n c Inr ok
          show ?thesis by (auto simp: Let_def)
        next
          case False
          note nok = this
          from 2(4) [OF no _ n [symmetric] refl refl c [symmetric] Inr nok] \<open>ends_in_dot_o a\<close>
            2(5) no n c Inr nok
          show ?thesis by (auto simp: Let_def)
        qed
      qed
    qed
  qed
qed

lemma fork_execute_outcome:
  "fork_execute X argv w = (Some out, w') \<Longrightarrow> ends_compile out"
  by (auto simp: fork_execute_def ends_compile_def split: prod.splits if_splits)

lemma compiler_pass_outcome: "ends_compile (fst (compiler_pass X save pfx cc_argv w))"
proof -
  obtain name w2 where a: "(if save then (concat_from pfx [''.mkoffload.omp_requires''],
        unsetenv ''LIBRARY_PATH'' (unsetenv ''COMPILER_PATH'' (unsetenv ''GCC_EXEC_PREFIX'' w)))
      else make_temp_file X ''.mkoffload.omp_requires''
        (unsetenv ''LIBRARY_PATH'' (unsetenv ''COMPILER_PATH'' (unsetenv ''GCC_EXEC_PREFIX'' w))))
      = (name, w2)"
    by (rule prod.exhaust)
  obtain r w5 where b: "fork_execute X cc_argv
      (xputenv ''GCC_OFFLOAD_OMP_REQUIRES_FILE'' name (obstack_ptr_grow (Registered name) w2))
      = (r, w5)"
    by (rule prod.exhaust)
  show ?thesis
  proof (cases r)
    case None
    then show ?thesis
      by (simp add: compiler_pass_def Let_def a b ends_compile_def)
  next
    case (Some out)
    with fork_execute_outcome b show ?thesis
      by (simp add: compiler_pass_def Let_def a)
  qed
qed

lemma main_lp64_outcome: "ends_compile (fst (main_lp64 X driver f pfx cc_args args w))"
proof -
  obtain s1 w1 where a: "assembler_names X (save_temps f) (concat_from pfx [''.mkoffload'']) w
      = (s1, w1)"
    by (rule prod.exhaust)
  obtain r w2 where b: "debug_objects X (save_temps f) pfx args [driver] 0 w1 = (r, w2)"
    by (rule prod.exhaust)
  show ?thesis
  proof (cases r)
    case (Inl out)
    with debug_objects_outcome b have "out = Hangs \<or> out = Internal_Error \<or> out = Fatal_Error ''out of memory''"
      by blast
    then have "ends_compile out"
      by (auto simp: ends_compile_def)
    then show ?thesis
      by (simp add: main_lp64_def Let_def a b Inl)
  next
    case (Inr ld_argv)
    then show ?thesis
      by (simp add: main_lp64_def Let_def a b compiler_pass_outcome)
  qed
qed

lemma main_compile_outcome: "ends_compile (fst (main_compile X driver abi f args w))"
proof -
  obtain passed outname where a: "output_option args None = (passed, outname)"
    by (rule prod.exhaust)
  let ?pfx = "case dumppfx f of None \<Rightarrow> outname | Some d \<Rightarrow> Some d"
  obtain name w1 where b: "(if save_temps f then (concat_from ?pfx [''.c''], w)
      else make_temp_file X ''.c'' w) = (name, w1)"
    by (rule prod.exhaust)
  show ?thesis
  proof (cases "fopen_w name (obstack_ptr_grow (Registered name) w1)")
    case None
    then show ?thesis
      by (simp add: main_compile_def Let_def a b ends_compile_def)
  next
    case (Some w3)
    then show ?thesis
      by (simp add: main_compile_def Let_def a b main_lp64_outcome) (simp add: ends_compile_def)
  qed
qed

subsection \<open>The check on \<^verbatim>\<open>-fopenacc\<close> and \<^verbatim>\<open>-fopenmp\<close>\<close>

lemma abi_not_flag:
  "startswith a ''-foffload-abi='' \<Longrightarrow> a \<noteq> ''-fopenmp'' \<and> a \<noteq> ''-fopenacc'' \<and> a \<noteq> ''-dumpbase''"
  by (auto simp: startswith_def)

lemma scan_abi:
  "startswith a ''-foffload-abi='' \<Longrightarrow> scan_args (a # rest) f = Inr f'
     \<Longrightarrow> \<exists>g. scan_args rest g = Inr f' \<and> fopenmp g = fopenmp f \<and> fopenacc g = fopenacc f"
  by (auto split: if_splits)

lemma scan_omp:
  "scan_args (''-fopenmp'' # rest) f = scan_args rest (f\<lparr>fopenmp := True\<rparr>)"
  by (simp add: startswith_def)

lemma scan_acc:
  "scan_args (''-fopenacc'' # rest) f = scan_args rest (f\<lparr>fopenacc := True\<rparr>)"
  by (simp add: startswith_def)

lemma scan_dump:
  "rest \<noteq> [] \<Longrightarrow> scan_args (''-dumpbase'' # rest) f = scan_args (tl rest) (f\<lparr>dumppfx := Some (hd rest)\<rparr>)"
  by (simp add: startswith_def)

lemma scan_other:
  "\<not> startswith a ''-foffload-abi='' \<Longrightarrow> a \<noteq> ''-fopenmp'' \<Longrightarrow> a \<noteq> ''-fopenacc''
     \<Longrightarrow> \<not> (a = ''-dumpbase'' \<and> rest \<noteq> []) \<Longrightarrow> scan_args (a # rest) f = Inr f'
     \<Longrightarrow> \<exists>g. scan_args rest g = Inr f' \<and> fopenmp g = fopenmp f \<and> fopenacc g = fopenacc f"
  by (auto split: if_splits)


lemma scan_args_flags:
  "scan_args args f = Inr f'
     \<Longrightarrow> (fopenmp f' \<longleftrightarrow> fopenmp f \<or> ''-fopenmp'' \<in> set (option_args args))
         \<and> (fopenacc f' \<longleftrightarrow> fopenacc f \<or> ''-fopenacc'' \<in> set (option_args args))"
proof (induction "length args" arbitrary: args f rule: less_induct)
  case less
  show ?case
  proof (cases args)
    case Nil
    with less.prems show ?thesis by simp
  next
    case (Cons a rest)
    note ih = less.hyps
    consider (abi) "startswith a ''-foffload-abi=''"
      | (omp) "a = ''-fopenmp''" | (acc) "a = ''-fopenacc''"
      | (dump) "a = ''-dumpbase''" "rest \<noteq> []"
      | (other) "\<not> startswith a ''-foffload-abi=''" "a \<noteq> ''-fopenmp''" "a \<noteq> ''-fopenacc''"
          "\<not> (a = ''-dumpbase'' \<and> rest \<noteq> [])"
      by blast
    then show ?thesis
    proof cases
      case abi
      from scan_abi [OF abi] less.prems Cons obtain g
        where g: "scan_args rest g = Inr f'" "fopenmp g = fopenmp f" "fopenacc g = fopenacc f"
        by blast
      have "length rest < length args" using Cons by simp
      from ih [OF this g(1)] g(2,3) abi_not_flag [OF abi] Cons show ?thesis
        by auto
    next
      case omp
      have "length rest < length args" using Cons by simp
      moreover have "scan_args rest (f\<lparr>fopenmp := True\<rparr>) = Inr f'"
        using less.prems unfolding Cons omp scan_omp .
      ultimately show ?thesis
        using ih [of rest "f\<lparr>fopenmp := True\<rparr>"] Cons omp by simp
    next
      case acc
      have "length rest < length args" using Cons by simp
      moreover have "scan_args rest (f\<lparr>fopenacc := True\<rparr>) = Inr f'"
        using less.prems unfolding Cons acc scan_acc .
      ultimately show ?thesis
        using ih [of rest "f\<lparr>fopenacc := True\<rparr>"] Cons acc by simp
    next
      case dump
      have "length (tl rest) < length args" using Cons by simp
      moreover have "scan_args (tl rest) (f\<lparr>dumppfx := Some (hd rest)\<rparr>) = Inr f'"
        using less.prems unfolding Cons dump(1) scan_dump [OF dump(2)] .
      ultimately show ?thesis
        using ih [of "tl rest" "f\<lparr>dumppfx := Some (hd rest)\<rparr>"] Cons dump by simp
    next
      case other
      from scan_other [OF other] less.prems Cons obtain g
        where g: "scan_args rest g = Inr f'" "fopenmp g = fopenmp f" "fopenacc g = fopenacc f"
        by blast
      have "length rest < length args" using Cons by simp
      from ih [OF this g(1)] g(2,3) other Cons show ?thesis
        by auto
    qed
  qed
qed

lemma find_driver_outcome:
  "find_driver X w = Inl out
     \<Longrightarrow> out = Crash
         \<or> (\<exists>msg. out = Fatal_Error msg \<and> msg \<noteq> ''either -fopenacc or -fopenmp must be set'')"
  by (auto simp: find_driver_def Let_def split: option.splits if_splits prod.splits)

lemma scan_args_step_Inl:
  "scan_args (a # rest) f = Inl msg
     \<Longrightarrow> msg = ''unrecognizable argument of option -foffload-abi=''
         \<or> (\<exists>g. scan_args rest g = Inl msg) \<or> (\<exists>g. scan_args (tl rest) g = Inl msg)"
  by (simp split: if_splits) blast+

lemma scan_args_message:
  "scan_args args f = Inl msg \<Longrightarrow> msg = ''unrecognizable argument of option -foffload-abi=''"
proof (induction "length args" arbitrary: args f rule: less_induct)
  case less
  show ?case
  proof (cases args)
    case Nil
    with less.prems show ?thesis by simp
  next
    case (Cons a rest)
    have l: "length rest < length args" "length (tl rest) < length args"
      using Cons by simp_all
    from scan_args_step_Inl less.prems Cons
    consider "msg = ''unrecognizable argument of option -foffload-abi=''"
      | g where "scan_args rest g = Inl msg" | g where "scan_args (tl rest) g = Inl msg"
      by blast
    then show ?thesis
      using less.hyps [OF l(1)] less.hyps [OF l(2)] by cases blast+
  qed
qed

lemma ends_compile_not_check:
  "ends_compile out \<Longrightarrow> out \<noteq> Fatal_Error ''either -fopenacc or -fopenmp must be set''"
  by (auto simp: ends_compile_def)

text \<open>
  C2, as amended. Count \<^verbatim>\<open>-fopenacc\<close> and \<^verbatim>\<open>-fopenmp\<close> where the scan reads them as
  options: after \<^verbatim>\<open>argv[0]\<close>, and not as the operand of \<^verbatim>\<open>-dumpbase\<close>. In every run in
  which the locator of lines 225--270 does not crash (it does when the probe beside
  \<^verbatim>\<open>COLLECT_GCC\<close> fails and \<^verbatim>\<open>COMPILER_PATH\<close> is unset, or so long that \<^verbatim>\<open>parse_env_var\<close>
  does not return), for every argument vector with both or neither of them \<^verbatim>\<open>main\<close>
  ends in a fatal error and leaves the process state as it found it: nothing was
  executed, registered or created. For every vector with exactly one of them the check
  passes: \<^verbatim>\<open>main\<close> does not end with the message of line 307.
\<close>

theorem model_flags_checked:
  assumes "find_driver X w \<noteq> Inl Crash"
  shows "((''-fopenacc'' \<in> set (option_args (tl argv))) = (''-fopenmp'' \<in> set (option_args (tl argv)))
          \<longrightarrow> snd (main X argv w) = w \<and> (\<exists>msg. fst (main X argv w) = Fatal_Error msg))
         \<and> ((''-fopenacc'' \<in> set (option_args (tl argv))) \<noteq> (''-fopenmp'' \<in> set (option_args (tl argv)))
          \<longrightarrow> fst (main X argv w) \<noteq> Fatal_Error ''either -fopenacc or -fopenmp must be set'')"
proof (cases "find_driver X w")
  case (Inl out)
  with find_driver_outcome [OF Inl] assms show ?thesis
    by (auto simp: main_def)
next
  case drv: (Inr driver)
  show ?thesis
  proof (cases "scan_args (tl argv) initial_flags")
    case (Inl msg)
    then have "msg = ''unrecognizable argument of option -foffload-abi=''"
      by (rule scan_args_message)
    with drv Inl show ?thesis
      by (simp add: main_def)
  next
    case (Inr f)
    from scan_args_flags [OF Inr]
    have fl: "fopenmp f \<longleftrightarrow> ''-fopenmp'' \<in> set (option_args (tl argv))"
             "fopenacc f \<longleftrightarrow> ''-fopenacc'' \<in> set (option_args (tl argv))"
      by (simp_all add: initial_flags_def)
    show ?thesis
    proof (cases "abi_option (offload_abi f)")
      case None
      with drv Inr fl show ?thesis
        by (simp add: main_def)
    next
      case (Some abi)
      with drv Inr fl ends_compile_not_check [OF main_compile_outcome [of X driver abi f "tl argv" w]]
      show ?thesis
        by (simp add: main_def)
    qed
  qed
qed


theorem model_flags_checked_witness:
  "find_driver sample_ext sample_world \<noteq> Inl Crash
   \<and> snd (main sample_ext both_argv sample_world) = sample_world
   \<and> fst (main sample_ext sample_argv sample_world)
       \<noteq> Fatal_Error ''either -fopenacc or -fopenmp must be set''"
proof -
  have d: "find_driver sample_ext sample_world \<noteq> Inl Crash"
    by code_simp
  from model_flags_checked [OF d, of both_argv] model_flags_checked [OF d, of sample_argv] d
  show ?thesis
    by (simp add: both_argv_def sample_argv_def)
qed

text \<open>
  C2 as stated fails on a vector that holds both words, one of them as the operand of
  \<^verbatim>\<open>-dumpbase\<close>: the check passes and the compiler is run. It also fails on a vector with
  both flags when the offload compiler is not beside \<^verbatim>\<open>COLLECT_GCC\<close> and \<^verbatim>\<open>COMPILER_PATH\<close>
  is unset: the run crashes in the locator, before the arguments are looked at.
\<close>

theorem dumpbase_operand_counterexample:
  "''-fopenacc'' \<in> set dumpbase_argv \<and> ''-fopenmp'' \<in> set dumpbase_argv
   \<and> fst (main sample_ext dumpbase_argv sample_world) = Returns (- 1)
   \<and> length (executed (snd (main sample_ext dumpbase_argv sample_world))) = 1
   \<and> ''-fopenacc'' \<in> set both_argv \<and> ''-fopenmp'' \<in> set both_argv
   \<and> getenv no_compiler_path_world ''COMPILER_PATH'' = None
   \<and> fst (main sample_ext both_argv no_compiler_path_world) = Crash"
  by code_simp

subsection \<open>What the code does where claims of the specification ask for more\<close>

text \<open>
  C1, the code at the claim's inputs. Whenever \<^verbatim>\<open>main\<close> returns it returns \<open>-1\<close>, which a
  parent process reads as exit status 255: no run exits with status 0, whatever the
  compiler returned. The sample run passes every configuration check, its only
  subprocess (the compiler; no link step is ever started) succeeds, and it returns \<open>-1\<close>.
\<close>

theorem main_returns_minus_one:
  assumes "fst (main X argv w) = Returns r"
  shows "r = - 1 \<and> exit_status r = 255"
proof -
  have "r = - 1"
  proof (cases "find_driver X w")
    case (Inl out)
    with find_driver_outcome [OF Inl] assms show ?thesis
      by (auto simp: main_def)
  next
    case drv: (Inr driver)
    show ?thesis
    proof (cases "scan_args (tl argv) initial_flags")
      case (Inl msg)
      with drv assms show ?thesis
        by (simp add: main_def)
    next
      case (Inr f)
      show ?thesis
      proof (cases "abi_option (offload_abi f)")
        case None
        with drv Inr assms show ?thesis
          by (simp add: main_def split: if_splits)
      next
        case (Some abi)
        with drv Inr assms main_compile_outcome [of X driver abi f "tl argv" w]
        show ?thesis
          by (simp add: main_def ends_compile_def split: if_splits)
      qed
    qed
  qed
  then show ?thesis
    by (simp add: exit_status_def)
qed

theorem main_returns_minus_one_witness:
  "fst (main sample_ext sample_argv sample_world) = Returns (- 1)
   \<and> exit_status (- 1) = 255
   \<and> length (executed (snd (main sample_ext sample_argv sample_world))) = 1"
proof -
  have r: "fst (main sample_ext sample_argv sample_world) = Returns (- 1)"
    by code_simp
  have e: "length (executed (snd (main sample_ext sample_argv sample_world))) = 1"
    by code_simp
  from main_returns_minus_one [OF r] r e show ?thesis
    by simp
qed

text \<open>A missing output cannot be reopened.\<close>

lemma adjust_output_None: "adjust_output X None = Inr False"
  by (simp add: adjust_output_def)

text \<open>
  C3, the code at the claim's inputs. Whenever \<^verbatim>\<open>copy_early_debug_info\<close> returns true, the
  output file is the file the copy of the debug sections wrote, byte for byte: the pass
  over the relocation sections reads the records and rewrites none of them. In the sample
  the record keeps the type code 10 of the source architecture.
\<close>

theorem output_left_as_copied:
  assumes "copy_early_debug_info X infile outfile fs = (Inr True, fs')"
  shows "\<exists>inobj out.
           fs infile = Some inobj
           \<and> simple_object_copy_lto_debug_sections X (content inobj) (fs outfile) = (None, Some out)
           \<and> fs' = fs(outfile \<mapsto> out)"
proof (cases "fs infile")
  case None
  with assms show ?thesis
    by (simp add: copy_early_debug_info_def)
next
  case (Some inobj)
  obtain errmsg out
    where c: "simple_object_copy_lto_debug_sections X (content inobj) (fs outfile) = (errmsg, out)"
    by (rule prod.exhaust)
  from assms Some c have e: "errmsg = None" and a: "adjust_output X out = Inr True"
    and f: "fs' = fs(outfile := out)"
    by (auto simp: copy_early_debug_info_def split: if_splits option.splits)
  from a obtain n where "out = Some n"
    by (cases out) (simp_all add: adjust_output_None)
  with Some c e f show ?thesis
    by simp
qed

theorem output_left_as_copied_witness:
  "fst (copy_early_debug_info sample_ext ''d.o'' ''/tmp/d.dbg.o'' (files sample_world)) = Inr True
   \<and> map_option content
        (snd (copy_early_debug_info sample_ext ''d.o'' ''/tmp/d.dbg.o'' (files sample_world))
           ''/tmp/d.dbg.o'') = Some rela_elf
   \<and> take 8 (drop 72 rela_elf) = [10, 0, 0, 0, 1, 0, 0, 0]"
proof -
  let ?r = "copy_early_debug_info sample_ext ''d.o'' ''/tmp/d.dbg.o'' (files sample_world)"
  have t: "fst ?r = Inr True"
    by code_simp
  then have "?r = (Inr True, snd ?r)"
    by (metis prod.collapse)
  from output_left_as_copied [OF this] obtain inobj out
    where i: "files sample_world ''d.o'' = Some inobj"
      and c: "simple_object_copy_lto_debug_sections sample_ext (content inobj)
                (files sample_world ''/tmp/d.dbg.o'') = (None, Some out)"
      and s: "snd ?r = (files sample_world)(''/tmp/d.dbg.o'' \<mapsto> out)"
    by blast
  from i have "content inobj = elf_magic @ [1, 1] @ rela_elf"
    by (auto simp: sample_world_def object_file_def)
  with c have "content out = rela_elf"
    by (auto simp: sample_ext_def elf_magic_def new_file_def)
  moreover have "take 8 (drop 72 rela_elf) = [10, 0, 0, 0, 1, 0, 0, 0]"
    by code_simp
  ultimately show ?thesis
    using t s by simp
qed

text \<open>
  C4, the code at the claim's inputs. The handler run at exit leaves every process state
  as it is. In the sample run, without \<^verbatim>\<open>-save-temps\<close>, the temporary C file did not exist
  before, is registered, and is still there when the process has exited; the debug object
  of \<^verbatim>\<open>b.o\<close> is registered twice (lines 408 and 412).
\<close>

theorem temporaries_survive_exit:
  "mkoffload_cleanup w = w
   \<and> fst (mkoffload sample_ext sample_argv sample_world) = Returns (- 1)
   \<and> files sample_world ''/tmp/cc0.c'' = None
   \<and> Registered ''/tmp/cc0.c''
        \<in> set (files_to_cleanup (snd (mkoffload sample_ext sample_argv sample_world)))
   \<and> files (snd (mkoffload sample_ext sample_argv sample_world)) ''/tmp/cc0.c'' \<noteq> None
   \<and> count_list (files_to_cleanup (snd (mkoffload sample_ext sample_argv sample_world)))
        (Registered ''/tmp/cc4.mkoffload.dbg.o'') = 2"
proof -
  have a: "mkoffload_cleanup w = w"
    by (simp add: mkoffload_cleanup_def tool_cleanup_def)
  have b: "fst (mkoffload sample_ext sample_argv sample_world) = Returns (- 1)
   \<and> files sample_world ''/tmp/cc0.c'' = None
   \<and> Registered ''/tmp/cc0.c''
        \<in> set (files_to_cleanup (snd (mkoffload sample_ext sample_argv sample_world)))
   \<and> files (snd (mkoffload sample_ext sample_argv sample_world)) ''/tmp/cc0.c'' \<noteq> None
   \<and> count_list (files_to_cleanup (snd (mkoffload sample_ext sample_argv sample_world)))
        (Registered ''/tmp/cc4.mkoffload.dbg.o'') = 2"
    by code_simp
  show ?thesis
    by (rule conjI [OF a b])
qed

text \<open>Lines 445--460 leave the three variables unset, and nothing after them sets one.\<close>

lemma make_temp_file_environ: "environ (snd (make_temp_file X suffix w)) = environ w"
  by (simp add: make_temp_file_def Let_def)

lemma compiler_pass_unsets:
  assumes "v = ''GCC_EXEC_PREFIX'' \<or> v = ''COMPILER_PATH'' \<or> v = ''LIBRARY_PATH''"
  shows "environ (snd (compiler_pass X save pfx cc_argv w)) v = None"
proof -
  let ?w1 = "unsetenv ''LIBRARY_PATH'' (unsetenv ''COMPILER_PATH'' (unsetenv ''GCC_EXEC_PREFIX'' w))"
  obtain name w2 where a: "(if save then (concat_from pfx [''.mkoffload.omp_requires''], ?w1)
      else make_temp_file X ''.mkoffload.omp_requires'' ?w1) = (name, w2)"
    by (rule prod.exhaust)
  then have e2: "environ w2 = environ ?w1"
    using make_temp_file_environ [of X "''.mkoffload.omp_requires''" ?w1]
    by (auto split: if_splits)
  have e1: "environ ?w1 v = None"
    using assms by (auto simp: unsetenv_def)
  let ?w4 = "xputenv ''GCC_OFFLOAD_OMP_REQUIRES_FILE'' name (obstack_ptr_grow (Registered name) w2)"
  have e4: "environ ?w4 v = None"
    using assms e1 e2 by (auto simp: xputenv_def obstack_ptr_grow_def)
  obtain r w5 where b: "fork_execute X cc_argv ?w4 = (r, w5)"
    by (rule prod.exhaust)
  then have e5: "environ w5 = environ ?w4"
    by (auto simp: fork_execute_def split: prod.splits)
  have c: "snd (compiler_pass X save pfx cc_argv w)
             = (case r of None \<Rightarrow> unsetenv ''GCC_OFFLOAD_OMP_REQUIRES_FILE'' w5 | Some out \<Rightarrow> w5)"
    by (cases r) (simp_all add: compiler_pass_def Let_def a b)
  show ?thesis
    unfolding c using e4 e5 assms by (cases r) (auto simp: unsetenv_def)
qed

lemma main_lp64_returns_unsets:
  assumes "main_lp64 X driver f pfx cc_args args w = (Returns r, w')"
    and "v = ''GCC_EXEC_PREFIX'' \<or> v = ''COMPILER_PATH'' \<or> v = ''LIBRARY_PATH''"
  shows "environ w' v = None"
proof -
  obtain s1 w1 where a: "assembler_names X (save_temps f) (concat_from pfx [''.mkoffload'']) w
      = (s1, w1)"
    by (rule prod.exhaust)
  obtain res w2 where b: "debug_objects X (save_temps f) pfx args [driver] 0 w1 = (res, w2)"
    by (rule prod.exhaust)
  show ?thesis
  proof (cases res)
    case (Inl out)
    with debug_objects_outcome b
    have "out = Hangs \<or> out = Internal_Error \<or> out = Fatal_Error ''out of memory''"
      by blast
    with assms(1) a b Inl show ?thesis
      by (auto simp: main_lp64_def Let_def)
  next
    case (Inr ld_argv)
    with assms(1) a b have "w' = snd (compiler_pass X (save_temps f) pfx
        (cc_args @ [''-dumpdir'', [], ''-dumpbase'', concat_from pfx [''.mkoffload''],
                    ''-dumpbase-ext'', [], ''-o'', s1]) w2)"
      by (simp add: main_lp64_def Let_def)
    then show ?thesis
      using compiler_pass_unsets [OF assms(2)] by simp
  qed
qed

text \<open>
  C5, the code at the claim's inputs. Whenever \<^verbatim>\<open>main\<close> returns from a run with
  \<^verbatim>\<open>-foffload-abi=lp64\<close>, the three variables are unset in the environment it leaves,
  whatever they were before: the values read at lines 442--444 are never put back. In the
  sample run they were set.
\<close>

theorem environment_not_restored:
  assumes "main X argv w = (Returns r, w')"
    and "scan_args (tl argv) initial_flags = Inr f"
    and "offload_abi f = OFFLOAD_ABI_LP64"
  shows "environ w' ''GCC_EXEC_PREFIX'' = None \<and> environ w' ''COMPILER_PATH'' = None
         \<and> environ w' ''LIBRARY_PATH'' = None"
proof -
  from assms(1) obtain driver where d: "find_driver X w = Inr driver"
    by (cases "find_driver X w") (auto simp: main_def dest: find_driver_outcome)
  from assms(1,2) d have c: "fopenacc f \<noteq> fopenmp f"
    by (auto simp: main_def split: if_splits)
  from assms(3) have abi: "abi_option (offload_abi f) = Some ''-mabi=lp64d''"
    by (simp add: abi_option_def)
  from assms(1,2) d c abi
  have m: "main_compile X driver ''-mabi=lp64d'' f (tl argv) w = (Returns r, w')"
    by (simp add: main_def)
  obtain passed outname where o: "output_option (tl argv) None = (passed, outname)"
    by (rule prod.exhaust)
  let ?pfx = "case dumppfx f of None \<Rightarrow> outname | Some d \<Rightarrow> Some d"
  obtain name w1 where t: "(if save_temps f then (concat_from ?pfx [''.c''], w)
      else make_temp_file X ''.c'' w) = (name, w1)"
    by (rule prod.exhaust)
  from m o t assms(3) obtain w3 cc_args
    where "main_lp64 X driver f ?pfx cc_args (tl argv) w3 = (Returns r, w')"
    by (cases "fopen_w name (obstack_ptr_grow (Registered name) w1)")
       (auto simp: main_compile_def Let_def)
  from main_lp64_returns_unsets [OF this] show ?thesis
    by simp
qed

theorem environment_not_restored_witness:
  "fst (main sample_ext sample_argv sample_world) = Returns (- 1)
   \<and> map (environ sample_world) [''GCC_EXEC_PREFIX'', ''COMPILER_PATH'', ''LIBRARY_PATH'']
       = [Some ''/usr/lib/gcc/'', Some ''/usr/libexec:/opt/bin:/srv/bin'', Some ''/usr/lib'']
   \<and> map (environ (snd (main sample_ext sample_argv sample_world)))
         [''GCC_EXEC_PREFIX'', ''COMPILER_PATH'', ''LIBRARY_PATH''] = [None, None, None]"
proof -
  let ?r = "main sample_ext sample_argv sample_world"
  have r: "fst ?r = Returns (- 1)"
    by code_simp
  then have m: "?r = (Returns (- 1), snd ?r)"
    by (metis prod.collapse)
  have s: "scan_args (tl sample_argv) initial_flags
             = Inr (initial_flags\<lparr>offload_abi := OFFLOAD_ABI_LP64, fopenmp := True\<rparr>)"
    by (simp add: sample_argv_def startswith_def initial_flags_def ends_in_dot_o_def)
  have e: "map (environ sample_world) [''GCC_EXEC_PREFIX'', ''COMPILER_PATH'', ''LIBRARY_PATH'']
       = [Some ''/usr/lib/gcc/'', Some ''/usr/libexec:/opt/bin:/srv/bin'', Some ''/usr/lib'']"
    by (simp add: sample_world_def)
  from environment_not_restored [OF m s] r e show ?thesis
    by simp
qed

text \<open>
  C6, the code at the claim's inputs. \<^verbatim>\<open>a.o\<close> of the sample is a recognised container
  without the debug section: \<^verbatim>\<open>copy_early_debug_info\<close> returns false and creates no file,
  and under \<^verbatim>\<open>-save-temps\<close> the name chosen for its debug object is in the registry at
  exit (line 408 registered it before the call), for a file that never existed.
\<close>

theorem failed_extraction_is_registered:
  "simple_object_start_read sample_ext (elf_magic @ [0, 1, 9, 9, 9, 9])
   \<and> \<not> simple_object_find_section sample_ext (elf_magic @ [0, 1, 9, 9, 9, 9])
          ''.gnu.debuglto_.debug_info''
   \<and> fst (copy_early_debug_info sample_ext ''a.o'' ''out.img.mkoffload.dbg0.o''
            (files sample_world)) = Inr False
   \<and> files_to_cleanup (snd (mkoffload sample_ext save_argv sample_world))
       = [Registered ''out.img.c'', Registered ''out.img.mkoffload.1.s'',
          Registered ''out.img.mkoffload.2.s'', Uninitialized,
          Registered ''out.img.mkoffload.dbg0.o'',
          Registered ''out.img.mkoffload.omp_requires'']
   \<and> files (snd (mkoffload sample_ext save_argv sample_world)) ''out.img.mkoffload.dbg0.o''
       = None"
  by code_simp

end
